theory Spec2Isabelle
  imports Main
begin

section \<open>Values, errors and remote calls\<close>

text \<open>
  A parsed JSON value as the JavaScript code sees it.  \<open>JUndefined\<close> is what reading a
  missing property yields.  Numbers are kept as integers: the code only ever compares
  them or adds one to them.
\<close>

datatype jsval =
    JUndefined
  | JNull
  | JBool bool
  | JNum int
  | JStr string
  | JArr "jsval list"
  | JObj "(string \<times> jsval) list"

text \<open>
  The operator \<^verbatim>\<open>===\<close>.  Primitives are compared by value.  Arrays and objects are
  compared by reference; the two operands of every comparison in this development come
  from two different parsed documents (the snapshot handed in by the host and the body
  of a fresh response), so they are never the same reference.
\<close>

fun strict_eq :: "jsval \<Rightarrow> jsval \<Rightarrow> bool" where
  "strict_eq JUndefined JUndefined = True"
| "strict_eq JNull JNull = True"
| "strict_eq (JBool a) (JBool b) = (a = b)"
| "strict_eq (JNum a) (JNum b) = (a = b)"
| "strict_eq (JStr a) (JStr b) = (a = b)"
| "strict_eq _ _ = False"

definition strict_neq :: "jsval \<Rightarrow> jsval \<Rightarrow> bool" where
  "strict_neq a b = (\<not> strict_eq a b)"

fun is_scalar :: "jsval \<Rightarrow> bool" where
  "is_scalar (JArr _) = False"
| "is_scalar (JObj _) = False"
| "is_scalar _ = True"

text \<open>
  What a call can throw: the error of a failed remote call (as \<^verbatim>\<open>#apiRequest\<close> or
  \<^verbatim>\<open>Backendless.Request\<close> raises it), the \<^verbatim>\<open>TypeError\<close> of reading a property of
  \<^verbatim>\<open>undefined\<close>, and an \<^verbatim>\<open>Error\<close> the code throws itself.
\<close>

datatype error =
    RemoteError string
  | TypeError
  | PlainError string

subsection \<open>Strings and numbers of the platform\<close>

text \<open>
  A string is the sequence of its bytes (UTF-8).  On text that is all ASCII the string
  functions of JavaScript are written out below.  What they do on other text, and how a
  number beyond the safe integers is printed, is the platform's business, not the
  repository's: these three functions are taken as they are, as parameters.
  \<^item> \<open>lower_non_ascii\<close> is \<^verbatim>\<open>String.prototype.toLowerCase\<close> on text with a non-ASCII byte;
  \<^item> \<open>trim_non_ascii\<close> is \<^verbatim>\<open>String.prototype.trim\<close> on text with a non-ASCII byte;
  \<^item> \<open>toString_unsafe\<close> is \<^verbatim>\<open>Number.prototype.toString\<close> on an integer of magnitude above
    \<open>2^53\<close>.
\<close>

record js_platform =
  lower_non_ascii :: "string \<Rightarrow> string"
  trim_non_ascii :: "string \<Rightarrow> string"
  toString_unsafe :: "int \<Rightarrow> string"

definition is_ascii :: "char \<Rightarrow> bool" where
  "is_ascii c = ((of_char c :: nat) < 128)"

text \<open>
  \<^verbatim>\<open>String.prototype.toLowerCase\<close>: on ASCII text the letters \<open>A\<close> to \<open>Z\<close> are mapped to
  \<open>a\<close> to \<open>z\<close> and every other character is kept.
\<close>

definition lower_char :: "char \<Rightarrow> char" where
  "lower_char c =
     (case map_of (zip ''ABCDEFGHIJKLMNOPQRSTUVWXYZ'' ''abcdefghijklmnopqrstuvwxyz'') c of
        None \<Rightarrow> c
      | Some l \<Rightarrow> l)"

definition toLowerCase :: "js_platform \<Rightarrow> string \<Rightarrow> string" where
  "toLowerCase pf s = (if list_all is_ascii s then map lower_char s else lower_non_ascii pf s)"

text \<open>
  \<^verbatim>\<open>String.prototype.trim\<close>: on ASCII text the white space (space, tab, line feed,
  vertical tab, form feed, carriage return) is removed at both ends.
\<close>

definition is_space :: "char \<Rightarrow> bool" where
  "is_space c = (c \<in> set [CHR '' '', CHR 0x09, CHR 0x0A, CHR 0x0B, CHR 0x0C, CHR 0x0D])"

definition trim :: "js_platform \<Rightarrow> string \<Rightarrow> string" where
  "trim pf s =
     (if list_all is_ascii s then rev (dropWhile is_space (rev (dropWhile is_space s)))
      else trim_non_ascii pf s)"

text \<open>
  \<^verbatim>\<open>Number.prototype.toString\<close> on a number that holds an integer: up to magnitude \<open>2^53\<close>
  it is the decimal numeral of the integer.
\<close>

fun show_nat :: "nat \<Rightarrow> string" where
  "show_nat n =
     (if n < 10 then [''0123456789'' ! n]
      else show_nat (n div 10) @ [''0123456789'' ! (n mod 10)])"

declare show_nat.simps [simp del]

definition show_int :: "js_platform \<Rightarrow> int \<Rightarrow> string" where
  "show_int pf i =
     (if \<bar>i\<bar> \<le> 2 ^ 53
      then (if i < 0 then ''-'' @ show_nat (nat (- i)) else show_nat (nat i))
      else toString_unsafe pf i)"

text \<open>
  A number is an IEEE 754 binary64 value.  The numbers of this development hold
  integers; \<open>round_binary64 m\<close> is the binary64 value nearest to the integer \<open>m\<close> (ties
  to the even significand), so that \<open>round_binary64 (a + b)\<close> is the sum JavaScript
  computes for two such numbers.  An integer of at most 53 bits is kept.
\<close>

fun bit_length :: "nat \<Rightarrow> nat" where
  "bit_length n = (if n = 0 then 0 else Suc (bit_length (n div 2)))"

declare bit_length.simps [simp del]

definition round_binary64 :: "int \<Rightarrow> int" where
  "round_binary64 m =
     (let a = nat \<bar>m\<bar>; e = bit_length a in
      if e \<le> 53 then m
      else
        (let sh = e - 53;
             q = a div 2 ^ sh;
             r = a mod 2 ^ sh;
             half = 2 ^ (sh - 1);
             q' = (if half < r \<or> (r = half \<and> odd q) then q + 1 else q)
         in sgn m * int (q' * 2 ^ sh)))"

text \<open>The sample platform of the examples, which are all ASCII text and small numbers.\<close>

definition sample_platform :: js_platform where
  "sample_platform =
     \<lparr>lower_non_ascii = (\<lambda>s. s), trim_non_ascii = (\<lambda>s. s), toString_unsafe = (\<lambda>i. ''?'')\<rparr>"

text \<open>\<^verbatim>\<open>s.startsWith(t)\<close> and \<^verbatim>\<open>s.includes(t)\<close>: \<open>t\<close> occurs in \<open>s\<close> as a substring.\<close>

fun starts_with :: "string \<Rightarrow> string \<Rightarrow> bool" where
  "starts_with s [] = True"
| "starts_with [] (c # t) = False"
| "starts_with (d # s) (c # t) = (d = c \<and> starts_with s t)"

fun js_includes :: "string \<Rightarrow> string \<Rightarrow> bool" where
  "js_includes [] t = (t = [])"
| "js_includes (c # s) t = (starts_with (c # s) t \<or> js_includes s t)"

text \<open>\<^verbatim>\<open>a || b\<close> on an optional string and a default.\<close>

fun or_else :: "string option \<Rightarrow> string \<Rightarrow> string" where
  "or_else None d = d"
| "or_else (Some s) d = (if s = [] then d else s)"

section \<open>Airtable: records and the polling triggers\<close>

text \<open>
  A record of a table: its id and its \<^verbatim>\<open>fields\<close> (\<open>rfields\<close>), an object whose keys
  are the column names.  \<open>rid\<close> is the property \<^verbatim>\<open>id\<close>.
\<close>

record airtable_record =
  rid :: string
  rfields :: "(string \<times> jsval) list"

text \<open>\<^verbatim>\<open>record.fields[column]\<close>: the value, or \<^verbatim>\<open>undefined\<close> for a missing key.\<close>

definition field_of :: "airtable_record \<Rightarrow> string \<Rightarrow> jsval" where
  "field_of r col = (case map_of (rfields r) col of None \<Rightarrow> JUndefined | Some v \<Rightarrow> v)"

text \<open>The body of \<^verbatim>\<open>GET /{baseId}/{tableIdOrName}\<close>; \<^verbatim>\<open>records\<close> may be missing.\<close>

record list_response =
  resp_records :: "airtable_record list option"

record trigger_data =
  baseId :: string
  tableIdOrName :: string
  lastModifiedColumn :: string

text \<open>The persisted state \<^verbatim>\<open>{ records }\<close>; the property is optional on the way in.\<close>

record poll_state =
  records :: "airtable_record list option"

record invocation =
  triggerData :: trigger_data
  state :: "poll_state option"
  learningMode :: bool

text \<open>
  The result \<^verbatim>\<open>{ events, state }\<close>.  An element of \<^verbatim>\<open>events\<close> is a record or
  \<^verbatim>\<open>undefined\<close> (\<open>None\<close>): learning mode stores \<^verbatim>\<open>records[0]\<close> whatever it is.
\<close>

record trigger_result =
  events :: "airtable_record option list"
  next_state :: "poll_state option"

text \<open>A table of the base schema and its columns.\<close>

record table_field =
  field_id :: string
  field_name :: "string option"
  field_type :: string

record table_schema =
  table_id :: string
  table_name :: "string option"
  table_fields :: "table_field list"

text \<open>A base and the body of \<^verbatim>\<open>GET /meta/bases\<close>; a comment and the body of the comments listing.\<close>

record base =
  base_id :: string
  base_name :: "string option"

record bases_response =
  bases :: "base list"
  bases_offset :: "string option"

record comment =
  comment_id :: string
  comment_text :: "string option"

record comments_response =
  comments :: "comment list"
  comments_offset :: "string option"

text \<open>
  The remote API as the Airtable service calls it through \<^verbatim>\<open>#apiRequest\<close>: each
  endpoint answers with a parsed body or throws.
  \<^item> \<open>list_records baseId table sortField direction\<close> is
    \<^verbatim>\<open>GET /{baseId}/{table}?sort[0][field]=..&sort[0][direction]=..\<close>; the sort field is
    \<open>None\<close> when the code passes \<^verbatim>\<open>undefined\<close>, and the body may be empty (\<open>None\<close>);
  \<^item> \<open>list_all_records baseId table\<close> is \<^verbatim>\<open>GET /{baseId}/{table}\<close> without a query;
  \<^item> \<open>list_tables baseId\<close> is \<^verbatim>\<open>GET /meta/bases/{baseId}/tables\<close>, its \<^verbatim>\<open>tables\<close>;
  \<^item> \<open>list_bases offset\<close> is \<^verbatim>\<open>GET /meta/bases?offset=..\<close>;
  \<^item> \<open>list_comments baseId table recordId pageSize offset\<close> is
    \<^verbatim>\<open>GET /{baseId}/{table}/{recordId}/comments?pageSize=..&offset=..\<close>.
\<close>

record airtable_api =
  list_records :: "string \<Rightarrow> string \<Rightarrow> string option \<Rightarrow> string \<Rightarrow> error + list_response option"
  list_all_records :: "string \<Rightarrow> string \<Rightarrow> error + list_response option"
  list_tables :: "string \<Rightarrow> error + table_schema list"
  list_bases :: "string option \<Rightarrow> error + bases_response"
  list_comments :: "string \<Rightarrow> string \<Rightarrow> string \<Rightarrow> nat \<Rightarrow> string option \<Rightarrow> error + comments_response"

text \<open>\<^verbatim>\<open>#getLatestRecords\<close>: \<^verbatim>\<open>result?.records || []\<close>.\<close>

definition getLatestRecords ::
  "airtable_api \<Rightarrow> string \<Rightarrow> string \<Rightarrow> string option \<Rightarrow> error + airtable_record list" where
  "getLatestRecords api bId tbl sortByColumn =
     (case list_records api bId tbl sortByColumn ''desc'' of
        Inl e \<Rightarrow> Inl e
      | Inr None \<Rightarrow> Inr []
      | Inr (Some result) \<Rightarrow>
          (case resp_records result of None \<Rightarrow> Inr [] | Some rs \<Rightarrow> Inr rs))"

text \<open>\<^verbatim>\<open>records[0]\<close>: the first element, \<^verbatim>\<open>undefined\<close> on the empty array.\<close>

fun first_record :: "airtable_record list \<Rightarrow> airtable_record option" where
  "first_record [] = None"
| "first_record (r # _) = Some r"

text \<open>
  \<^verbatim>\<open>new Map(entries)\<close> inserts the entries from left to right, so a later entry
  replaces an earlier one with the same key; \<^verbatim>\<open>has\<close> and \<^verbatim>\<open>get\<close> read it.
\<close>

definition js_Map :: "(string \<times> jsval) list \<Rightarrow> (string \<rightharpoonup> jsval)" where
  "js_Map entries = foldl (\<lambda>m (k, v). m(k \<mapsto> v)) Map.empty entries"

definition map_has :: "(string \<rightharpoonup> jsval) \<Rightarrow> string \<Rightarrow> bool" where
  "map_has m k = (m k \<noteq> None)"

definition map_get :: "(string \<rightharpoonup> jsval) \<Rightarrow> string \<Rightarrow> jsval" where
  "map_get m k = (case m k of None \<Rightarrow> JUndefined | Some v \<Rightarrow> v)"

text \<open>\<^verbatim>\<open>invocation.state?.records\<close>: \<open>None\<close> when the state or the property is missing.\<close>

definition state_records :: "invocation \<Rightarrow> airtable_record list option" where
  "state_records invoc = (case state invoc of None \<Rightarrow> None | Some st \<Rightarrow> records st)"

text \<open>
  \<^verbatim>\<open>onNewOrUpdatedRecord\<close>.  The fetch comes first and its failure propagates; then
  learning mode, then the first run (an array, even an empty one, is truthy, so only a
  missing \<^verbatim>\<open>state.records\<close> takes this branch), then the comparison with the snapshot.
\<close>

definition onNewOrUpdatedRecord :: "airtable_api \<Rightarrow> invocation \<Rightarrow> error + trigger_result" where
  "onNewOrUpdatedRecord api invoc =
     (let td = triggerData invoc; col = lastModifiedColumn td in
      case getLatestRecords api (baseId td) (tableIdOrName td) (Some col) of
        Inl e \<Rightarrow> Inl e
      | Inr recs \<Rightarrow>
          if learningMode invoc then
            Inr \<lparr>events = [first_record recs], next_state = None\<rparr>
          else
            (case state_records invoc of
               None \<Rightarrow> Inr \<lparr>events = [], next_state = Some \<lparr>records = Some recs\<rparr>\<rparr>
             | Some prev \<Rightarrow>
                 (let prevRecords = js_Map (map (\<lambda>r. (rid r, field_of r col)) prev);
                      newOrUpdatedRecords =
                        filter (\<lambda>r. \<not> map_has prevRecords (rid r)
                                     \<or> strict_neq (field_of r col) (map_get prevRecords (rid r)))
                               recs
                  in Inr \<lparr>events = map Some newOrUpdatedRecords,
                          next_state = Some \<lparr>records = Some recs\<rparr>\<rparr>)))"

text \<open>
  \<^verbatim>\<open>#getCreatedColumnName\<close>: the table is looked up by id alone; reading \<^verbatim>\<open>fields\<close> of
  a table that was not found throws a \<^verbatim>\<open>TypeError\<close>; a table without a
  \<^verbatim>\<open>createdTime\<close> column makes the code throw its own error.  The value returned is the
  column's \<^verbatim>\<open>name\<close>, possibly \<^verbatim>\<open>undefined\<close>.
\<close>

definition getCreatedColumnName :: "airtable_api \<Rightarrow> string \<Rightarrow> string \<Rightarrow> error + string option" where
  "getCreatedColumnName api bId tbl =
     (case list_tables api bId of
        Inl e \<Rightarrow> Inl e
      | Inr tables \<Rightarrow>
          (case find (\<lambda>t. table_id t = tbl) tables of
             None \<Rightarrow> Inl TypeError
           | Some currentTable \<Rightarrow>
               (case find (\<lambda>f. field_type f = ''createdTime'') (table_fields currentTable) of
                  None \<Rightarrow> Inl (PlainError
                    (''There is no a column with type \"createdTime\" in the \"'' @ tbl @ ''\" table''))
                | Some createdColumn \<Rightarrow> Inr (field_name createdColumn))))"

text \<open>\<^verbatim>\<open>onNewRecord\<close>: the same three modes, with membership of the id as the only test.\<close>

definition onNewRecord :: "airtable_api \<Rightarrow> invocation \<Rightarrow> error + trigger_result" where
  "onNewRecord api invoc =
     (let td = triggerData invoc in
      case getCreatedColumnName api (baseId td) (tableIdOrName td) of
        Inl e \<Rightarrow> Inl e
      | Inr createdColumn \<Rightarrow>
          (case getLatestRecords api (baseId td) (tableIdOrName td) createdColumn of
             Inl e \<Rightarrow> Inl e
           | Inr recs \<Rightarrow>
               if learningMode invoc then
                 Inr \<lparr>events = [first_record recs], next_state = None\<rparr>
               else
                 (case state_records invoc of
                    None \<Rightarrow> Inr \<lparr>events = [], next_state = Some \<lparr>records = Some recs\<rparr>\<rparr>
                  | Some prev \<Rightarrow>
                      (let prevRecords = set (map rid prev);
                           newRecords = filter (\<lambda>r. rid r \<notin> prevRecords) recs
                       in Inr \<lparr>events = map Some newRecords,
                               next_state = Some \<lparr>records = Some recs\<rparr>\<rparr>))))"

text \<open>
  The value the snapshot \<open>S\<close> stores for an id, in the words of the specification: the
  watch-field value of the entity of \<open>S\<close> carrying that id (the last one, should an id be
  repeated), and \<^verbatim>\<open>undefined\<close> when there is none.
\<close>

definition valueInS :: "string \<Rightarrow> airtable_record list \<Rightarrow> string \<Rightarrow> jsval" where
  "valueInS col S i =
     (case find (\<lambda>s. rid s = i) (rev S) of None \<Rightarrow> JUndefined | Some s \<Rightarrow> field_of s col)"

text \<open>
  Sample data: a remote that answers every record listing with a fixed list and every
  schema request with a fixed schema (and knows no bases and no comments), the
  configuration of a trigger, a record with one column holding a time stamp, a record
  whose column holds the array \<^verbatim>\<open>[1]\<close>, and a table.
\<close>

definition fixed_api :: "airtable_record list \<Rightarrow> table_schema list \<Rightarrow> airtable_api" where
  "fixed_api recs tabs =
     \<lparr>list_records = (\<lambda>_ _ _ _. Inr (Some \<lparr>resp_records = Some recs\<rparr>)),
      list_all_records = (\<lambda>_ _. Inr (Some \<lparr>resp_records = Some recs\<rparr>)),
      list_tables = (\<lambda>_. Inr tabs),
      list_bases = (\<lambda>_. Inl (RemoteError ''NOT_FOUND'')),
      list_comments = (\<lambda>_ _ _ _ _. Inl (RemoteError ''NOT_FOUND''))\<rparr>"

definition sample_data :: trigger_data where
  "sample_data = \<lparr>baseId = ''app1'', tableIdOrName = ''tbl1'', lastModifiedColumn = ''modified''\<rparr>"

definition sample_record :: "string \<Rightarrow> string \<Rightarrow> airtable_record" where
  "sample_record i t = \<lparr>rid = i, rfields = [(''modified'', JStr t)]\<rparr>"

definition list_record :: "string \<Rightarrow> airtable_record" where
  "list_record i = \<lparr>rid = i, rfields = [(''modified'', JArr [JNum 1])]\<rparr>"

definition sample_table :: table_schema where
  "sample_table = \<lparr>table_id = ''tbl1'', table_name = Some ''Tasks'',
     table_fields = [\<lparr>field_id = ''fld1'', field_name = Some ''Created'', field_type = ''createdTime''\<rparr>]\<rparr>"

section \<open>Airtable: the dictionaries\<close>

text \<open>
  An entry of a dictionary, \<^verbatim>\<open>{ label, note, value }\<close>, and a page of them with the
  cursor of the next page; the type of a cursor depends on the service.
\<close>

record dictionary_item =
  item_label :: string
  item_note :: string
  item_value :: "string option"

record 'c dictionary_response =
  cursor :: "'c option"
  items :: "dictionary_item list"

text \<open>
  Reading a property of an item by its name, as \<^verbatim>\<open>item[field]\<close> does, for the items
  the dictionaries filter: a base, a table, a column, a comment.
\<close>

definition base_prop :: "base \<Rightarrow> string \<Rightarrow> string option" where
  "base_prop b f =
     (if f = ''id'' then Some (base_id b) else if f = ''name'' then base_name b else None)"

definition table_prop :: "table_schema \<Rightarrow> string \<Rightarrow> string option" where
  "table_prop t f =
     (if f = ''id'' then Some (table_id t) else if f = ''name'' then table_name t else None)"

definition field_prop :: "table_field \<Rightarrow> string \<Rightarrow> string option" where
  "field_prop fld f =
     (if f = ''id'' then Some (field_id fld)
      else if f = ''name'' then field_name fld
      else if f = ''type'' then Some (field_type fld)
      else None)"

definition comment_prop :: "comment \<Rightarrow> string \<Rightarrow> string option" where
  "comment_prop c f =
     (if f = ''id'' then Some (comment_id c) else if f = ''text'' then comment_text c else None)"

text \<open>
  Modelled from the spec: the test \<^verbatim>\<open>searchFilter\<close> of \<^verbatim>\<open>./utils\<close> applies to one value;
  \<^verbatim>\<open>./utils\<close> is not among the sources.  The specification: the value contains the search
  string, as a case-insensitive substring match; both are lower-cased and compared.
\<close>

definition contains_search :: "js_platform \<Rightarrow> string \<Rightarrow> string \<Rightarrow> bool" where
  "contains_search pf searchString v = js_includes (toLowerCase pf v) (toLowerCase pf searchString)"

text \<open>
  Modelled from the spec: the test \<^verbatim>\<open>searchFilter\<close> of \<^verbatim>\<open>./utils\<close> applies to one named
  field of one item.  A field the item does not have contains nothing.
\<close>

definition field_contains ::
  "js_platform \<Rightarrow> ('a \<Rightarrow> string \<Rightarrow> string option) \<Rightarrow> string \<Rightarrow> 'a \<Rightarrow> string \<Rightarrow> bool" where
  "field_contains pf prop searchString item f =
     (case prop item f of
        None \<Rightarrow> False
      | Some v \<Rightarrow> contains_search pf searchString v)"

text \<open>
  Modelled from the spec: \<^verbatim>\<open>searchFilter(list, props, searchString)\<close> of \<^verbatim>\<open>./utils\<close>,
  which is not among the sources.  The specification: it keeps, in their order, the
  items where any of the named fields contains the search string.
\<close>

definition searchFilter ::
  "js_platform \<Rightarrow> ('a \<Rightarrow> string \<Rightarrow> string option) \<Rightarrow> 'a list \<Rightarrow> string list \<Rightarrow> string
     \<Rightarrow> 'a list" where
  "searchFilter pf prop list props searchString =
     filter (\<lambda>item. list_ex (field_contains pf prop searchString item) props) list"

text \<open>\<^verbatim>\<open>search ? searchFilter(list, props, search) : list\<close>.\<close>

definition filter_page ::
  "js_platform \<Rightarrow> ('a \<Rightarrow> string \<Rightarrow> string option) \<Rightarrow> string option \<Rightarrow> string list
     \<Rightarrow> 'a list \<Rightarrow> 'a list" where
  "filter_page pf prop srch props list =
     (case srch of
        None \<Rightarrow> list
      | Some s \<Rightarrow> if s \<noteq> [] then searchFilter pf prop list props s else list)"

text \<open>The projection \<^verbatim>\<open>({ id, name }) => ({ label: name || '[empty]', note, value })\<close>.\<close>

definition dictionary_entry :: "string \<Rightarrow> string option \<Rightarrow> string option \<Rightarrow> dictionary_item" where
  "dictionary_entry i nm v =
     \<lparr>item_label = or_else nm ''[empty]'', item_note = ''ID: '' @ i, item_value = v\<rparr>"

text \<open>\<^verbatim>\<open>getBasesDictionary({ search, cursor })\<close>: one page of bases, the remote's offset as cursor.\<close>

definition getBasesDictionary ::
  "js_platform \<Rightarrow> airtable_api \<Rightarrow> string option \<Rightarrow> string option \<Rightarrow> error + string dictionary_response" where
  "getBasesDictionary pf api search cursor_in =
     (case list_bases api cursor_in of
        Inl e \<Rightarrow> Inl e
      | Inr resp \<Rightarrow>
          (let filteredBases = filter_page pf base_prop search [''id'', ''name''] (bases resp)
           in Inr \<lparr>cursor = bases_offset resp,
                   items = map (\<lambda>b. dictionary_entry (base_id b) (base_name b) (Some (base_id b)))
                             filteredBases\<rparr>))"

text \<open>\<^verbatim>\<open>getTablesDictionary({ search, criteria: { baseId } })\<close>: no cursor in the result.\<close>

definition getTablesDictionary ::
  "js_platform \<Rightarrow> airtable_api \<Rightarrow> string option \<Rightarrow> string \<Rightarrow> error + string dictionary_response" where
  "getTablesDictionary pf api search bId =
     (case list_tables api bId of
        Inl e \<Rightarrow> Inl e
      | Inr tables \<Rightarrow>
          (let filteredTables = filter_page pf table_prop search [''id'', ''name''] tables
           in Inr \<lparr>cursor = None,
                   items = map (\<lambda>t. dictionary_entry (table_id t) (table_name t) (Some (table_id t)))
                             filteredTables\<rparr>))"

text \<open>
  \<^verbatim>\<open>getFieldsDictionary({ search, criteria: { baseId, tableIdOrName } })\<close>: the table is
  found by its id alone, and \<^verbatim>\<open>currentTable.fields\<close> is read in both branches of the
  conditional, so a table that was not found throws a \<^verbatim>\<open>TypeError\<close>.
\<close>

definition getFieldsDictionary ::
  "js_platform \<Rightarrow> airtable_api \<Rightarrow> string option \<Rightarrow> string \<Rightarrow> string \<Rightarrow> error + string dictionary_response" where
  "getFieldsDictionary pf api search bId tbl =
     (case list_tables api bId of
        Inl e \<Rightarrow> Inl e
      | Inr tables \<Rightarrow>
          (case find (\<lambda>t. table_id t = tbl) tables of
             None \<Rightarrow> Inl TypeError
           | Some currentTable \<Rightarrow>
               (let filteredFields =
                      filter_page pf field_prop search [''id'', ''name''] (table_fields currentTable)
                in Inr \<lparr>cursor = None,
                        items = map (\<lambda>f. dictionary_entry (field_id f) (field_name f) (field_name f))
                                  filteredFields\<rparr>)))"

text \<open>\<^verbatim>\<open>#getTableSchema\<close>: the table whose id or whose name is the argument, if any.\<close>

definition getTableSchema :: "airtable_api \<Rightarrow> string \<Rightarrow> string \<Rightarrow> error + table_schema option" where
  "getTableSchema api bId tbl =
     (case list_tables api bId of
        Inl e \<Rightarrow> Inl e
      | Inr tables \<Rightarrow> Inr (find (\<lambda>t. table_id t = tbl \<or> table_name t = Some tbl) tables))"

text \<open>\<^verbatim>\<open>getLastModifiedColumnsDictionary\<close>: \<^verbatim>\<open>table?.fields || []\<close>, so no table is no column.\<close>

definition getLastModifiedColumnsDictionary ::
  "js_platform \<Rightarrow> airtable_api \<Rightarrow> string option \<Rightarrow> string \<Rightarrow> string \<Rightarrow> error + string dictionary_response" where
  "getLastModifiedColumnsDictionary pf api search bId tbl =
     (case getTableSchema api bId tbl of
        Inl e \<Rightarrow> Inl e
      | Inr table \<Rightarrow>
          (let tableFields = (case table of None \<Rightarrow> [] | Some t \<Rightarrow> table_fields t);
               lastModifiedColumns = filter (\<lambda>f. field_type f = ''lastModifiedTime'') tableFields;
               filteredFields = filter_page pf field_prop search [''id'', ''name''] lastModifiedColumns
           in Inr \<lparr>cursor = None,
                   items = map (\<lambda>f. dictionary_entry (field_id f) (field_name f) (field_name f))
                             filteredFields\<rparr>))"

text \<open>
  \<^verbatim>\<open>getRecordsDictionary({ search, criteria: { baseId, tableIdOrName } })\<close>: the records
  are listed without a query.  The body is destructured and \<^verbatim>\<open>records\<close> is used as an
  array, so a body without it throws a \<^verbatim>\<open>TypeError\<close>.  The label of a record is its id.
\<close>

definition record_prop :: "airtable_record \<Rightarrow> string \<Rightarrow> string option" where
  "record_prop r f = (if f = ''id'' then Some (rid r) else None)"

definition getRecordsDictionary ::
  "js_platform \<Rightarrow> airtable_api \<Rightarrow> string option \<Rightarrow> string \<Rightarrow> string
     \<Rightarrow> error + string dictionary_response" where
  "getRecordsDictionary pf api search bId tbl =
     (case list_all_records api bId tbl of
        Inl e \<Rightarrow> Inl e
      | Inr None \<Rightarrow> Inl TypeError
      | Inr (Some body) \<Rightarrow>
          (case resp_records body of
             None \<Rightarrow> Inl TypeError
           | Some recs \<Rightarrow>
               (let filteredRecords = filter_page pf record_prop search [''id''] recs
                in Inr \<lparr>cursor = None,
                        items = map (\<lambda>r. \<lparr>item_label = rid r, item_note = ''ID: '' @ rid r,
                                          item_value = Some (rid r)\<rparr>)
                                  filteredRecords\<rparr>)))"

text \<open>\<^verbatim>\<open>DEFAULT_LIMIT\<close>, the page size of the comments listing.\<close>

definition DEFAULT_LIMIT :: nat where
  "DEFAULT_LIMIT = 100"

text \<open>\<^verbatim>\<open>getCommentsDictionary({ search, cursor, criteria })\<close>: one page of comments.\<close>

definition getCommentsDictionary ::
  "js_platform \<Rightarrow> airtable_api \<Rightarrow> string option \<Rightarrow> string option \<Rightarrow> string \<Rightarrow> string \<Rightarrow> string
     \<Rightarrow> error + string dictionary_response" where
  "getCommentsDictionary pf api search cursor_in bId tbl recordId =
     (case list_comments api bId tbl recordId DEFAULT_LIMIT cursor_in of
        Inl e \<Rightarrow> Inl e
      | Inr resp \<Rightarrow>
          (let filteredComments = filter_page pf comment_prop search [''id'', ''text''] (comments resp)
           in Inr \<lparr>cursor = comments_offset resp,
                   items = map (\<lambda>c. dictionary_entry (comment_id c) (comment_text c) (Some (comment_id c)))
                             filteredComments\<rparr>))"

text \<open>
  Sample data: a remote with one page of bases and one schema, the page of the
  specification's scenario, a schema of two tables, and a remote that also has records
  and comments.
\<close>

definition catalog_api :: "bases_response \<Rightarrow> table_schema list \<Rightarrow> airtable_api" where
  "catalog_api page tabs =
     \<lparr>list_records = (\<lambda>_ _ _ _. Inr (Some \<lparr>resp_records = Some []\<rparr>)),
      list_all_records = (\<lambda>_ _. Inr (Some \<lparr>resp_records = Some []\<rparr>)),
      list_tables = (\<lambda>_. Inr tabs),
      list_bases = (\<lambda>_. Inr page),
      list_comments = (\<lambda>_ _ _ _ _. Inl (RemoteError ''NOT_FOUND''))\<rparr>"

definition fruit_page :: bases_response where
  "fruit_page =
     \<lparr>bases = [\<lparr>base_id = ''a'', base_name = Some ''Apples''\<rparr>,
               \<lparr>base_id = ''b'', base_name = Some ''Bananas''\<rparr>],
      bases_offset = Some ''next''\<rparr>"

definition fruit_tables :: "table_schema list" where
  "fruit_tables =
     [\<lparr>table_id = ''a'', table_name = Some ''Apples'',
       table_fields = [\<lparr>field_id = ''f1'', field_name = Some ''Picked'', field_type = ''createdTime''\<rparr>]\<rparr>,
      \<lparr>table_id = ''b'', table_name = Some ''Bananas'',
       table_fields = [\<lparr>field_id = ''f2'', field_name = Some ''Changed'', field_type = ''lastModifiedTime''\<rparr>]\<rparr>]"

definition full_api ::
  "bases_response \<Rightarrow> table_schema list \<Rightarrow> airtable_record list \<Rightarrow> comments_response
     \<Rightarrow> airtable_api" where
  "full_api page tabs recs cpage =
     \<lparr>list_records = (\<lambda>_ _ _ _. Inr (Some \<lparr>resp_records = Some recs\<rparr>)),
      list_all_records = (\<lambda>_ _. Inr (Some \<lparr>resp_records = Some recs\<rparr>)),
      list_tables = (\<lambda>_. Inr tabs),
      list_bases = (\<lambda>_. Inr page),
      list_comments = (\<lambda>_ _ _ _ _. Inr cpage)\<rparr>"

definition fruit_records :: "airtable_record list" where
  "fruit_records = [\<lparr>rid = ''recApple'', rfields = []\<rparr>, \<lparr>rid = ''recBANANA'', rfields = []\<rparr>]"

definition fruit_comments :: comments_response where
  "fruit_comments =
     \<lparr>comments = [\<lparr>comment_id = ''c1'', comment_text = Some ''Ripe''\<rparr>,
                  \<lparr>comment_id = ''c2'', comment_text = Some ''Tangy''\<rparr>],
      comments_offset = None\<rparr>"

definition orchard_tables :: "table_schema list" where
  "orchard_tables =
     [\<lparr>table_id = ''t1'', table_name = Some ''Orchard'',
       table_fields =
         [\<lparr>field_id = ''f1'', field_name = Some ''Planted'', field_type = ''createdTime''\<rparr>,
          \<lparr>field_id = ''f2'', field_name = Some ''Changed'', field_type = ''lastModifiedTime''\<rparr>,
          \<lparr>field_id = ''f3'', field_name = Some ''Edited'', field_type = ''lastModifiedTime''\<rparr>]\<rparr>,
      \<lparr>table_id = ''t2'', table_name = Some ''Barn'', table_fields = []\<rparr>]"

section \<open>Airtable: the credential lifecycle\<close>

subsection \<open>Form encoding\<close>

text \<open>\<^verbatim>\<open>Array.prototype.join\<close> on strings.\<close>

fun join :: "string \<Rightarrow> string list \<Rightarrow> string" where
  "join sep [] = []"
| "join sep [x] = x"
| "join sep (x # y # ys) = x @ sep @ join sep (y # ys)"

text \<open>
  \<^verbatim>\<open>URLSearchParams\<close> is the list of the pairs appended so far, and \<^verbatim>\<open>toString()\<close> its
  \<^verbatim>\<open>application/x-www-form-urlencoded\<close> serialisation: in a name or a value a space
  becomes \<open>+\<close>, letters, digits and \<open>*-._\<close> stay, and every other byte is written as
  \<open>%\<close> and two upper-case hexadecimal digits; a pair is \<open>name=value\<close>, pairs are joined
  by \<open>&\<close>.  A string is the sequence of its bytes.
\<close>

definition unreserved_chars :: string where
  "unreserved_chars = ''ABCDEFGHIJKLMNOPQRSTUVWXYZabcdefghijklmnopqrstuvwxyz0123456789*-._''"

definition hex_digits :: string where
  "hex_digits = ''0123456789ABCDEF''"

definition percent_encode_char :: "char \<Rightarrow> string" where
  "percent_encode_char c =
     (if c = CHR '' '' then ''+''
      else if c \<in> set unreserved_chars then [c]
      else [CHR ''%'', hex_digits ! (of_char c div 16), hex_digits ! (of_char c mod 16)])"

definition form_encode :: "string \<Rightarrow> string" where
  "form_encode s = concat (map percent_encode_char s)"

definition encode_pair :: "string \<times> string \<Rightarrow> string" where
  "encode_pair p = form_encode (fst p) @ ''='' @ form_encode (snd p)"

definition URLSearchParams_toString :: "(string \<times> string) list \<Rightarrow> string" where
  "URLSearchParams_toString params = join ''&'' (map encode_pair params)"

text \<open>
  The reading side, which is the standard's parser and not part of the service: the
  text is cut at every \<open>&\<close>, empty pieces are dropped, a piece is cut at its first \<open>=\<close>,
  and in both halves \<open>+\<close> is a space and \<open>%XY\<close> the byte with that hexadecimal code.  It
  says what a query string or a form body contains.
\<close>

definition hex_value :: "char \<Rightarrow> nat" where
  "hex_value c = length (takeWhile (\<lambda>d. d \<noteq> c) hex_digits)"

fun form_decode :: "string \<Rightarrow> string" where
  "form_decode [] = []"
| "form_decode [c] = (if c = CHR ''+'' then '' '' else [c])"
| "form_decode [c, a] = (if c = CHR ''+'' then CHR '' '' # form_decode [a] else c # form_decode [a])"
| "form_decode (c # a # b # cs) =
     (if c = CHR ''+'' then CHR '' '' # form_decode (a # b # cs)
      else if c = CHR ''%'' then char_of (hex_value a * 16 + hex_value b) # form_decode cs
      else c # form_decode (a # b # cs))"

fun split_on :: "char \<Rightarrow> string \<Rightarrow> string list" where
  "split_on d [] = [[]]"
| "split_on d (c # cs) =
     (if c = d then [] # split_on d cs
      else (case split_on d cs of [] \<Rightarrow> [[c]] | p # ps \<Rightarrow> (c # p) # ps))"

definition parse_pair :: "string \<Rightarrow> string \<times> string" where
  "parse_pair s =
     (form_decode (takeWhile (\<lambda>c. c \<noteq> CHR ''='') s),
      form_decode (drop 1 (dropWhile (\<lambda>c. c \<noteq> CHR ''='') s)))"

definition parse_query :: "string \<Rightarrow> (string \<times> string) list" where
  "parse_query s = map parse_pair (filter (\<lambda>p. p \<noteq> []) (split_on CHR ''&'' s))"

subsection \<open>The service and the token endpoint\<close>

definition OAUTH_BASE_URL :: string where
  "OAUTH_BASE_URL = ''https://airtable.com/oauth2/v1''"

definition DEFAULT_SCOPE_LIST :: "string list" where
  "DEFAULT_SCOPE_LIST =
     [''schema.bases:read'', ''user.email:read'', ''webhook:manage'', ''schema.bases:write'',
      ''data.records:read'', ''data.records:write'', ''data.recordComments:read'',
      ''data.recordComments:write'']"

definition DEFAULT_SCOPE_STRING :: string where
  "DEFAULT_SCOPE_STRING = join '' '' DEFAULT_SCOPE_LIST"

text \<open>
  The service instance: the configuration, the scopes its constructor sets, and the
  \<^verbatim>\<open>oauth-access-token\<close> header of the request being served, if there is one.
\<close>

record service =
  clientId :: string
  clientSecret :: string
  scopes :: string
  request_token :: "string option"

definition new_service :: "string \<Rightarrow> string \<Rightarrow> string option \<Rightarrow> service" where
  "new_service cid secret tok =
     \<lparr>clientId = cid, clientSecret = secret, scopes = DEFAULT_SCOPE_STRING, request_token = tok\<rparr>"

text \<open>
  An \<^verbatim>\<open>Authorization\<close> header.  \<open>Basic t\<close> stands for \<^verbatim>\<open>Basic base64(t)\<close>: the encoding
  itself is not modelled.
\<close>

datatype authorization = Basic string | Bearer string

text \<open>\<^verbatim>\<open>#getSecretTokenHeader\<close> and \<^verbatim>\<open>#getAccessTokenHeader\<close>.\<close>

definition getSecretTokenHeader :: "service \<Rightarrow> authorization" where
  "getSecretTokenHeader svc = Basic (clientId svc @ '':'' @ clientSecret svc)"

definition getAccessTokenHeader :: "service \<Rightarrow> string option \<Rightarrow> authorization" where
  "getAccessTokenHeader svc accessToken =
     Bearer (or_else accessToken
               (case request_token svc of None \<Rightarrow> ''undefined'' | Some t \<Rightarrow> t))"

text \<open>The bodies of the token endpoint and of \<^verbatim>\<open>GET /meta/whoami\<close>.\<close>

record token_response =
  access_token :: "string option"
  expires_in :: "int option"
  refresh_token :: "string option"

record user_info =
  user_id :: "string option"
  email :: "string option"

text \<open>
  The two remote calls of the credential flow, made with \<^verbatim>\<open>Backendless.Request\<close>:
  \<open>post_token header body\<close> is \<^verbatim>\<open>POST /oauth2/v1/token\<close> with that header and that
  form-encoded body, \<open>whoami header\<close> is \<^verbatim>\<open>GET /meta/whoami\<close>.  Each answers or throws.
\<close>

record oauth_api =
  post_token :: "authorization \<Rightarrow> string \<Rightarrow> error + token_response"
  whoami :: "authorization \<Rightarrow> error + user_info"

subsection \<open>The three operations\<close>

text \<open>
  \<^verbatim>\<open>getOAuth2ConnectionURL\<close>.  The verifier is the value \<^verbatim>\<open>generateCodeVerifier()\<close>
  returned, and \<^verbatim>\<open>generateCodeChallenge\<close> is passed in: both live in \<^verbatim>\<open>./utils\<close>.
\<close>

definition getOAuth2ConnectionURL :: "service \<Rightarrow> (string \<Rightarrow> string) \<Rightarrow> string \<Rightarrow> string" where
  "getOAuth2ConnectionURL svc generateCodeChallenge codeVerifier =
     (let codeChallenge = generateCodeChallenge codeVerifier;
          params = [(''client_id'', clientId svc),
                    (''response_type'', ''code''),
                    (''scope'', scopes svc),
                    (''code_challenge'', codeChallenge),
                    (''code_challenge_method'', ''S256''),
                    (''state'', codeVerifier)]
      in OAUTH_BASE_URL @ ''/authorize?'' @ URLSearchParams_toString params)"

text \<open>The result of \<^verbatim>\<open>refreshToken\<close>.\<close>

record refresh_result =
  token :: "string option"
  expirationInSeconds :: "int option"
  refreshed_token :: string

text \<open>
  \<^verbatim>\<open>refreshToken(refreshToken)\<close>: the error of the call is logged and thrown again;
  \<open>refreshed_token\<close> is the property \<^verbatim>\<open>refreshToken: response.refresh_token || refreshToken\<close>.
\<close>

definition refreshToken :: "service \<Rightarrow> oauth_api \<Rightarrow> string \<Rightarrow> error + refresh_result" where
  "refreshToken svc api rt =
     (let params = [(''grant_type'', ''refresh_token''), (''refresh_token'', rt)] in
      case post_token api (getSecretTokenHeader svc) (URLSearchParams_toString params) of
        Inl e \<Rightarrow> Inl e
      | Inr response \<Rightarrow>
          Inr \<lparr>token = access_token response,
               expirationInSeconds = expires_in response,
               refreshed_token = or_else (refresh_token response) rt\<rparr>)"

text \<open>The callback \<^verbatim>\<open>{ code, redirectURI, state }\<close> and what \<^verbatim>\<open>executeCallback\<close> returns.\<close>

record callback_object =
  code :: string
  redirectURI :: string
  callback_state :: string

record connection =
  conn_token :: "string option"
  conn_expirationInSeconds :: "int option"
  conn_refreshToken :: "string option"
  connectionIdentityName :: string
  connectionIdentityImageURL :: "string option"
  overwrite :: bool
  userData :: user_info

datatype callback_result = EmptyObject | Connection connection

text \<open>
  The second half of \<^verbatim>\<open>executeCallback\<close>: the identity lookup with the new access token,
  inside its own \<^verbatim>\<open>try\<close>, and the result built from the two bodies.
\<close>

definition identity_lookup :: "service \<Rightarrow> oauth_api \<Rightarrow> token_response \<Rightarrow> error + callback_result" where
  "identity_lookup svc api codeExchangeResponse =
     (case whoami api (getAccessTokenHeader svc (access_token codeExchangeResponse)) of
        Inl e \<Rightarrow> Inr EmptyObject
      | Inr userInfo \<Rightarrow>
          Inr (Connection
            \<lparr>conn_token = access_token codeExchangeResponse,
             conn_expirationInSeconds = expires_in codeExchangeResponse,
             conn_refreshToken = refresh_token codeExchangeResponse,
             connectionIdentityName = or_else (email userInfo) ''Unknown Airtable Account'',
             connectionIdentityImageURL = None,
             overwrite = True,
             userData = userInfo\<rparr>))"

text \<open>\<^verbatim>\<open>executeCallback(callbackObject)\<close>: the code exchange inside the first \<^verbatim>\<open>try\<close>.\<close>

definition executeCallback :: "service \<Rightarrow> oauth_api \<Rightarrow> callback_object \<Rightarrow> error + callback_result" where
  "executeCallback svc api callbackObject =
     (let params = [(''grant_type'', ''authorization_code''),
                    (''client_secret'', clientSecret svc),
                    (''code'', code callbackObject),
                    (''redirect_uri'', redirectURI callbackObject),
                    (''code_verifier'', callback_state callbackObject)] in
      case post_token api (getSecretTokenHeader svc) (URLSearchParams_toString params) of
        Inl e \<Rightarrow> Inr EmptyObject
      | Inr codeExchangeResponse \<Rightarrow> identity_lookup svc api codeExchangeResponse)"

text \<open>
  Sample data: a remote with fixed answers, a token body with and without a new refresh
  token, an identity, a stand-in for the challenge function, and a callback.
\<close>

definition fixed_oauth :: "error + token_response \<Rightarrow> error + user_info \<Rightarrow> oauth_api" where
  "fixed_oauth tok who = \<lparr>post_token = (\<lambda>_ _. tok), whoami = (\<lambda>_. who)\<rparr>"

definition sample_token :: "string option \<Rightarrow> token_response" where
  "sample_token r = \<lparr>access_token = Some ''at1'', expires_in = Some 3600, refresh_token = r\<rparr>"

definition sample_user :: user_info where
  "sample_user = \<lparr>user_id = Some ''usr1'', email = Some ''ann@example.com''\<rparr>"

definition sample_challenge :: "string \<Rightarrow> string" where
  "sample_challenge v = ''challenge-of-'' @ v"

definition sample_callback :: callback_object where
  "sample_callback = \<lparr>code = ''c0de'', redirectURI = ''https://host/cb'', callback_state = ''v3rifier''\<rparr>"

section \<open>Telegram: the chats dictionary\<close>

text \<open>An optional string in a template literal.\<close>

definition template :: "string option \<Rightarrow> string" where
  "template s = (case s of None \<Rightarrow> ''undefined'' | Some x \<Rightarrow> x)"

text \<open>
  The cursor of the payload is documented as a string and computed with as a number:
  both are kept.  \<^verbatim>\<open>payload?.cursor || 0\<close> replaces a missing cursor, the number \<open>0\<close>
  and the empty string by \<open>0\<close>; \<^verbatim>\<open>cursor + 1\<close> adds one to a number, in binary64, and
  appends the character \<open>1\<close> to a string.  \<open>CNum n\<close> is a number that holds the integer
  \<open>n\<close>, a finite binary64 value.
\<close>

datatype tg_cursor = CNum int | CStr string

fun cursor_or_zero :: "tg_cursor option \<Rightarrow> tg_cursor" where
  "cursor_or_zero None = CNum 0"
| "cursor_or_zero (Some (CNum n)) = CNum n"
| "cursor_or_zero (Some (CStr s)) = (if s = [] then CNum 0 else CStr s)"

fun cursor_plus_one :: "tg_cursor \<Rightarrow> tg_cursor" where
  "cursor_plus_one (CNum n) = CNum (round_binary64 (n + 1))"
| "cursor_plus_one (CStr s) = CStr (s @ ''1'')"

text \<open>The payload \<^verbatim>\<open>{ search, cursor }\<close>, a chat, and an update with \<^verbatim>\<open>update.message?.chat\<close>.\<close>

record chats_payload =
  payload_search :: "string option"
  payload_cursor :: "tg_cursor option"

record tg_chat =
  chat_id :: int
  chat_type :: string
  username :: "string option"
  first_name :: "string option"
  last_name :: "string option"
  title :: "string option"
  member_count :: "int option"

record tg_update =
  message_chat :: "tg_chat option"

text \<open>\<open>getUpdates offset\<close> is \<^verbatim>\<open>GET /bot<token>/getUpdates?offset=..\<close>, its \<^verbatim>\<open>result\<close>.\<close>

record telegram_api =
  getUpdates :: "tg_cursor \<Rightarrow> error + tg_update list"

text \<open>\<^verbatim>\<open>searchInText(source, search)\<close>; \<^verbatim>\<open>source.toLowerCase()\<close> throws on \<^verbatim>\<open>undefined\<close>.\<close>

definition searchInText :: "js_platform \<Rightarrow> string option \<Rightarrow> string \<Rightarrow> error + bool" where
  "searchInText pf source srch =
     (case source of
        None \<Rightarrow> Inl TypeError
      | Some s \<Rightarrow> Inr (js_includes (toLowerCase pf s) srch))"

text \<open>
  The test of one chat against the search string.  \<^verbatim>\<open>chat.id === search\<close> compares a
  number with a string and is false; \<^verbatim>\<open>||\<close> evaluates its right side only when the left
  one is false.
\<close>

definition chat_matched :: "js_platform \<Rightarrow> tg_chat \<Rightarrow> string \<Rightarrow> error + bool" where
  "chat_matched pf chat srch =
     (if chat_type chat = ''private'' then
        (case searchInText pf (username chat) srch of
           Inl e \<Rightarrow> Inl e
         | Inr True \<Rightarrow> Inr True
         | Inr False \<Rightarrow>
             searchInText pf
               (Some (template (first_name chat) @ '' '' @ template (last_name chat))) srch)
      else searchInText pf (title chat) srch)"

definition chat_entry :: "js_platform \<Rightarrow> tg_chat \<Rightarrow> dictionary_item" where
  "chat_entry pf chat =
     (let isPrivate = (chat_type chat = ''private'');
          lbl = (if isPrivate
                 then template (first_name chat) @ '' '' @ template (last_name chat)
                        @ '' ('' @ chat_type chat @ '')''
                 else template (title chat) @ '' ('' @ chat_type chat @ '')'');
          nt = (if isPrivate
                then ''ID: '' @ show_int pf (chat_id chat) @ '', @'' @ template (username chat)
                else ''ID: '' @ show_int pf (chat_id chat)
                       @ (case member_count chat of
                            None \<Rightarrow> []
                          | Some m \<Rightarrow> if m = 0 then [] else '', Members: '' @ show_int pf m))
      in \<lparr>item_label = lbl, item_note = nt, item_value = Some (show_int pf (chat_id chat))\<rparr>)"

text \<open>
  The body of \<^verbatim>\<open>updates.forEach\<close>, over the updates from left to right.  \<open>chatsSet\<close> is the
  \<^verbatim>\<open>Map\<close> from chat ids to entries, in insertion order; \<open>srch\<close> is the variable
  \<^verbatim>\<open>search\<close>, assigned again whenever it is not empty.
\<close>

fun collect_chats ::
  "js_platform \<Rightarrow> string \<Rightarrow> (int \<times> dictionary_item) list \<Rightarrow> tg_update list
     \<Rightarrow> error + (int \<times> dictionary_item) list" where
  "collect_chats pf srch chatsSet [] = Inr chatsSet"
| "collect_chats pf srch chatsSet (u # us) =
     (case message_chat u of
        None \<Rightarrow> collect_chats pf srch chatsSet us
      | Some chat \<Rightarrow>
          if chat_id chat \<in> set (map fst chatsSet) then collect_chats pf srch chatsSet us
          else if srch \<noteq> [] then
            (let srch' = trim pf (toLowerCase pf srch) in
             case chat_matched pf chat srch' of
               Inl e \<Rightarrow> Inl e
             | Inr False \<Rightarrow> collect_chats pf srch' chatsSet us
             | Inr True \<Rightarrow>
                 collect_chats pf srch' (chatsSet @ [(chat_id chat, chat_entry pf chat)]) us)
          else collect_chats pf srch (chatsSet @ [(chat_id chat, chat_entry pf chat)]) us)"

text \<open>\<^verbatim>\<open>getChatsDictionary(payload)\<close>; the payload itself may be missing.\<close>

definition getChatsDictionary ::
  "js_platform \<Rightarrow> telegram_api \<Rightarrow> chats_payload option
     \<Rightarrow> error + tg_cursor dictionary_response" where
  "getChatsDictionary pf api payload =
     (let srch = trim pf (toLowerCase pf
                   (case payload of None \<Rightarrow> [] | Some p \<Rightarrow> or_else (payload_search p) []));
          cursor_in = cursor_or_zero (case payload of None \<Rightarrow> None | Some p \<Rightarrow> payload_cursor p)
      in case getUpdates api cursor_in of
           Inl e \<Rightarrow> Inl e
         | Inr updates \<Rightarrow>
             (case collect_chats pf srch [] updates of
                Inl e \<Rightarrow> Inl e
              | Inr chatsSet \<Rightarrow>
                  Inr \<lparr>cursor = Some (cursor_plus_one cursor_in), items = map snd chatsSet\<rparr>))"

text \<open>
  What the chats dictionary returns, said without the loop: the chats of the updates
  of the page, a chat once per id (its first occurrence after the ids already seen);
  whether the test of a chat reads a field the chat has; and the test itself, on the
  search string as lower-cased and trimmed: a private chat matches by its user name or
  by its first and last name, any other chat by its title.
\<close>

fun page_chats :: "tg_update list \<Rightarrow> tg_chat list" where
  "page_chats [] = []"
| "page_chats (u # us) =
     (case message_chat u of None \<Rightarrow> page_chats us | Some chat \<Rightarrow> chat # page_chats us)"

fun first_per_id :: "int list \<Rightarrow> tg_chat list \<Rightarrow> tg_chat list" where
  "first_per_id seen [] = []"
| "first_per_id seen (chat # chats) =
     (if chat_id chat \<in> set seen then first_per_id seen chats
      else chat # first_per_id (seen @ [chat_id chat]) chats)"

definition has_tested_field :: "tg_chat \<Rightarrow> bool" where
  "has_tested_field chat =
     (if chat_type chat = ''private'' then username chat \<noteq> None else title chat \<noteq> None)"

definition chat_matches :: "js_platform \<Rightarrow> string \<Rightarrow> tg_chat \<Rightarrow> bool" where
  "chat_matches pf srch chat =
     (if chat_type chat = ''private'' then
        (case username chat of None \<Rightarrow> False | Some u \<Rightarrow> js_includes (toLowerCase pf u) srch)
        \<or> js_includes
             (toLowerCase pf (template (first_name chat) @ '' '' @ template (last_name chat))) srch
      else (case title chat of None \<Rightarrow> False | Some t \<Rightarrow> js_includes (toLowerCase pf t) srch))"

section \<open>Following the cursors\<close>

text \<open>
  The caller of a dictionary, in the words of the specification: the listing is called
  with the cursor the previous call returned, until a call returns no cursor; the
  entries of all pages are the result.  \<open>paginate n\<close> makes at most \<open>n\<close> calls and is
  \<open>None\<close> when the \<open>n\<close>-th call still returned a cursor.
\<close>

fun paginate ::
  "nat \<Rightarrow> ('c option \<Rightarrow> error + 'c dictionary_response) \<Rightarrow> 'c option
     \<Rightarrow> (error + dictionary_item list) option" where
  "paginate 0 list c = None"
| "paginate (Suc n) list c =
     (case list c of
        Inl e \<Rightarrow> Some (Inl e)
      | Inr page \<Rightarrow>
          (case cursor page of
             None \<Rightarrow> Some (Inr (items page))
           | Some c' \<Rightarrow>
               (case paginate n list (Some c') of
                  None \<Rightarrow> None
                | Some (Inl e) \<Rightarrow> Some (Inl e)
                | Some (Inr rest) \<Rightarrow> Some (Inr (items page @ rest)))))"

text \<open>
  Sample data: a bot that has received no update at all; a bot with a fixed list of
  updates; a group, a private chat with a user name and one without; and the updates
  of a page in which the group wrote twice.
\<close>

definition quiet_bot :: telegram_api where
  "quiet_bot = \<lparr>getUpdates = (\<lambda>_. Inr [])\<rparr>"

definition fixed_bot :: "tg_update list \<Rightarrow> telegram_api" where
  "fixed_bot updates = \<lparr>getUpdates = (\<lambda>_. Inr updates)\<rparr>"

definition team_chat :: tg_chat where
  "team_chat =
     \<lparr>chat_id = 42, chat_type = ''group'', username = None, first_name = None,
      last_name = None, title = Some ''Team'', member_count = None\<rparr>"

definition ann_chat :: tg_chat where
  "ann_chat =
     \<lparr>chat_id = 7, chat_type = ''private'', username = Some ''ann_a'', first_name = Some ''Ann'',
      last_name = Some ''Ames'', title = None, member_count = None\<rparr>"

definition bob_chat :: tg_chat where
  "bob_chat =
     \<lparr>chat_id = 8, chat_type = ''private'', username = None, first_name = Some ''Bob'',
      last_name = None, title = None, member_count = None\<rparr>"

definition sample_updates :: "tg_update list" where
  "sample_updates =
     [\<lparr>message_chat = Some team_chat\<rparr>, \<lparr>message_chat = None\<rparr>,
      \<lparr>message_chat = Some ann_chat\<rparr>, \<lparr>message_chat = Some team_chat\<rparr>]"

section \<open>Properties\<close>

subsection \<open>Numbers\<close>

text \<open>An integer within the safe range is its own binary64 value, so sums there are exact.\<close>

lemma bit_length_bound: "n < 2 ^ k \<Longrightarrow> bit_length n \<le> k"
proof (induction k arbitrary: n)
  case 0
  then show ?case by (simp add: bit_length.simps)
next
  case (Suc k)
  show ?case
  proof (cases "n = 0")
    case True
    then show ?thesis by (simp add: bit_length.simps)
  next
    case False
    from Suc.prems have "n div 2 < 2 ^ k" by simp
    then have "bit_length (n div 2) \<le> k" by (rule Suc.IH)
    with False show ?thesis by (subst bit_length.simps) simp
  qed
qed

lemma round_binary64_safe: "\<bar>m\<bar> < 2 ^ 53 \<Longrightarrow> round_binary64 m = m"
proof -
  assume "\<bar>m\<bar> < 2 ^ 53"
  then have "nat \<bar>m\<bar> < 2 ^ 53" by simp
  then have "bit_length (nat \<bar>m\<bar>) \<le> 53" by (rule bit_length_bound)
  then show ?thesis by (simp add: round_binary64_def Let_def)
qed

text \<open>Beyond the safe integers \<^verbatim>\<open>cursor + 1\<close> rounds: to the cursor itself, or past it.\<close>

lemma cursor_plus_one_beyond_safe:
  "cursor_plus_one (CNum 9007199254740992) = CNum 9007199254740992
   \<and> cursor_plus_one (CNum 9007199254740994) = CNum 9007199254740996"
  by (simp add: round_binary64_def bit_length.simps Let_def)

subsection \<open>The polling triggers\<close>

text \<open>
  On scalars (a timestamp, a number, a token) \<^verbatim>\<open>!==\<close> is plain inequality; an array or
  an object differs from every value of the other document.
\<close>

lemma strict_neq_scalar: "is_scalar a \<Longrightarrow> strict_neq a b = (a \<noteq> b)"
  by (cases a; cases b) (simp_all add: strict_neq_def)

lemma strict_neq_nested: "\<not> is_scalar a \<Longrightarrow> strict_neq a b"
  by (cases a) (simp_all add: strict_neq_def)

text \<open>The \<^verbatim>\<open>Map\<close> built from the snapshot: its keys are the ids, a later record wins.\<close>

lemma foldl_upd_map_of:
  "foldl (\<lambda>m (k, v). m(k \<mapsto> v)) m0 es = m0 ++ map_of (rev es)"
  by (induction es arbitrary: m0) (auto simp: map_add_def fun_eq_iff split: option.splits)

lemma js_Map_map_of: "js_Map es = map_of (rev es)"
  by (simp add: js_Map_def foldl_upd_map_of)

lemma map_of_keyed:
  "map_of (map (\<lambda>r. (rid r, g r)) xs) i = map_option g (find (\<lambda>s. rid s = i) xs)"
  by (induction xs) auto

lemma js_Map_snapshot:
  "js_Map (map (\<lambda>r. (rid r, g r)) S) i = map_option g (find (\<lambda>s. rid s = i) (rev S))"
  using map_of_keyed [of g "rev S" i] by (simp add: js_Map_map_of rev_map)

lemma map_has_snapshot:
  "map_has (js_Map (map (\<lambda>r. (rid r, g r)) S)) i \<longleftrightarrow> i \<in> rid ` set S"
  by (auto simp: map_has_def js_Map_snapshot find_None_iff image_iff)

lemma map_get_snapshot:
  "map_get (js_Map (map (\<lambda>r. (rid r, field_of r col)) S)) i = valueInS col S i"
  by (simp add: map_get_def valueInS_def js_Map_snapshot split: option.splits)

text \<open>With unique ids the value stored for a record of the snapshot is that record's own.\<close>

lemma find_distinct_key:
  "distinct (map rid xs) \<Longrightarrow> s \<in> set xs \<Longrightarrow> find (\<lambda>x. rid x = rid s) xs = Some s"
proof (induction xs)
  case Nil
  then show ?case by simp
next
  case (Cons a xs)
  show ?case
  proof (cases "a = s")
    case True
    then show ?thesis by simp
  next
    case False
    with Cons.prems have "s \<in> set xs" by simp
    with Cons.prems have "rid a \<noteq> rid s" by force
    with Cons \<open>s \<in> set xs\<close> show ?thesis by simp
  qed
qed

lemma valueInS_distinct:
  "distinct (map rid S) \<Longrightarrow> s \<in> set S \<Longrightarrow> valueInS col S (rid s) = field_of s col"
proof -
  assume "distinct (map rid S)" and "s \<in> set S"
  then have "distinct (map rid (rev S))" and "s \<in> set (rev S)"
    by (simp_all add: distinct_map)
  then have "find (\<lambda>x. rid x = rid s) (rev S) = Some s"
    by (rule find_distinct_key)
  then show ?thesis by (simp add: valueInS_def)
qed

text \<open>
  \<^verbatim>\<open>!==\<close> in one formula: the left value is an array or an object, or the two values are
  different.
\<close>

lemma strict_neq_iff: "strict_neq a b \<longleftrightarrow> \<not> is_scalar a \<or> a \<noteq> b"
  by (cases "is_scalar a") (simp_all add: strict_neq_scalar strict_neq_nested)

text \<open>
  Claim C1 as written says that a record whose id is in the snapshot is an event only
  when its value of the watch field differs from the stored one.  A record whose watch
  field holds the array \<^verbatim>\<open>[1]\<close>, in the snapshot and in the fetch alike, is an event.
\<close>

theorem unchanged_array_counterexample:
  "onNewOrUpdatedRecord (fixed_api [list_record ''r1''] [])
     \<lparr>triggerData = sample_data,
      state = Some \<lparr>records = Some [list_record ''r1'']\<rparr>, learningMode = False\<rparr>
     = Inr \<lparr>events = [Some (list_record ''r1'')],
            next_state = Some \<lparr>records = Some [list_record ''r1'']\<rparr>\<rparr>
   \<and> rid (list_record ''r1'') \<in> set (map rid [list_record ''r1''])
   \<and> field_of (list_record ''r1'') ''modified''
       = valueInS ''modified'' [list_record ''r1''] (rid (list_record ''r1''))"
  by (simp add: onNewOrUpdatedRecord_def sample_data_def fixed_api_def getLatestRecords_def
        state_records_def list_record_def js_Map_def map_has_def map_get_def field_of_def
        strict_neq_def valueInS_def Let_def)

text \<open>
  Claim C1, amended (incremental change detection).  When learning mode is off, the
  state carries a snapshot \<open>S\<close> and the fetch returns the list \<open>C\<close>, \<^verbatim>\<open>onNewOrUpdatedRecord\<close>
  returns as events exactly the records \<open>e\<close> of \<open>C\<close>, in the order of \<open>C\<close>, whose id is not an
  id of \<open>S\<close>, or whose value of the watch field \<^verbatim>\<open>lastModifiedColumn\<close> is an array or an
  object, or whose value of the watch field differs from the value \<open>S\<close> stores for that
  id; the returned state is \<open>C\<close> itself, whatever \<open>S\<close> was.
\<close>

theorem incremental_change_detection:
  assumes "\<not> learningMode invoc"
    and "state_records invoc = Some S"
    and "getLatestRecords api (baseId (triggerData invoc)) (tableIdOrName (triggerData invoc))
           (Some (lastModifiedColumn (triggerData invoc))) = Inr C"
  shows "onNewOrUpdatedRecord api invoc =
           Inr \<lparr>events = map Some (filter (\<lambda>e. rid e \<notin> rid ` set S
                    \<or> \<not> is_scalar (field_of e (lastModifiedColumn (triggerData invoc)))
                    \<or> field_of e (lastModifiedColumn (triggerData invoc))
                         \<noteq> valueInS (lastModifiedColumn (triggerData invoc)) S (rid e)) C),
                next_state = Some \<lparr>records = Some C\<rparr>\<rparr>"
  using assms
  by (simp add: onNewOrUpdatedRecord_def Let_def map_has_snapshot map_get_snapshot strict_neq_iff)

theorem incremental_change_detection_witness:
  "\<not> learningMode \<lparr>triggerData = sample_data,
        state = Some \<lparr>records = Some [sample_record ''r1'' ''t1'', sample_record ''r3'' ''t5'',
                                      list_record ''r4'']\<rparr>,
        learningMode = False\<rparr>
   \<and> state_records \<lparr>triggerData = sample_data,
        state = Some \<lparr>records = Some [sample_record ''r1'' ''t1'', sample_record ''r3'' ''t5'',
                                      list_record ''r4'']\<rparr>,
        learningMode = False\<rparr>
       = Some [sample_record ''r1'' ''t1'', sample_record ''r3'' ''t5'', list_record ''r4'']
   \<and> getLatestRecords
         (fixed_api [sample_record ''r1'' ''t2'', sample_record ''r2'' ''t3'',
                     sample_record ''r3'' ''t5'', list_record ''r4''] [])
         ''app1'' ''tbl1'' (Some ''modified'')
       = Inr [sample_record ''r1'' ''t2'', sample_record ''r2'' ''t3'',
              sample_record ''r3'' ''t5'', list_record ''r4'']
   \<and> onNewOrUpdatedRecord
         (fixed_api [sample_record ''r1'' ''t2'', sample_record ''r2'' ''t3'',
                     sample_record ''r3'' ''t5'', list_record ''r4''] [])
         \<lparr>triggerData = sample_data,
          state = Some \<lparr>records = Some [sample_record ''r1'' ''t1'', sample_record ''r3'' ''t5'',
                                        list_record ''r4'']\<rparr>,
          learningMode = False\<rparr>
       = Inr \<lparr>events = [Some (sample_record ''r1'' ''t2''), Some (sample_record ''r2'' ''t3''),
                        Some (list_record ''r4'')],
              next_state = Some \<lparr>records = Some [sample_record ''r1'' ''t2'',
                sample_record ''r2'' ''t3'', sample_record ''r3'' ''t5'', list_record ''r4'']\<rparr>\<rparr>"
  using incremental_change_detection
    [of "\<lparr>triggerData = sample_data,
          state = Some \<lparr>records = Some [sample_record ''r1'' ''t1'', sample_record ''r3'' ''t5'',
                                        list_record ''r4'']\<rparr>,
          learningMode = False\<rparr>"
        "[sample_record ''r1'' ''t1'', sample_record ''r3'' ''t5'', list_record ''r4'']"
        "fixed_api [sample_record ''r1'' ''t2'', sample_record ''r2'' ''t3'',
                    sample_record ''r3'' ''t5'', list_record ''r4''] []"
        "[sample_record ''r1'' ''t2'', sample_record ''r2'' ''t3'',
          sample_record ''r3'' ''t5'', list_record ''r4'']"]
  by (simp add: sample_data_def sample_record_def list_record_def fixed_api_def
        getLatestRecords_def state_records_def valueInS_def field_of_def)

text \<open>
  When the watch field of every fetched record holds a scalar, as a time stamp is, the
  test is the plain one: the id is new or the value differs from the stored one.
\<close>

lemma scalar_change_detection:
  assumes "\<not> learningMode invoc"
    and "state_records invoc = Some S"
    and "getLatestRecords api (baseId (triggerData invoc)) (tableIdOrName (triggerData invoc))
           (Some (lastModifiedColumn (triggerData invoc))) = Inr C"
    and "\<forall>e \<in> set C. is_scalar (field_of e (lastModifiedColumn (triggerData invoc)))"
  shows "onNewOrUpdatedRecord api invoc =
           Inr \<lparr>events = map Some (filter (\<lambda>e. rid e \<notin> rid ` set S
                    \<or> field_of e (lastModifiedColumn (triggerData invoc))
                         \<noteq> valueInS (lastModifiedColumn (triggerData invoc)) S (rid e)) C),
                next_state = Some \<lparr>records = Some C\<rparr>\<rparr>"
proof -
  have "filter (\<lambda>r. rid r \<notin> rid ` set S
                 \<or> strict_neq (field_of r (lastModifiedColumn (triggerData invoc)))
                      (valueInS (lastModifiedColumn (triggerData invoc)) S (rid r))) C
        = filter (\<lambda>e. rid e \<notin> rid ` set S
                 \<or> field_of e (lastModifiedColumn (triggerData invoc))
                      \<noteq> valueInS (lastModifiedColumn (triggerData invoc)) S (rid e)) C"
    using assms(4) by (intro filter_cong refl) (simp add: strict_neq_scalar)
  with assms(1-3) show ?thesis
    by (simp add: onNewOrUpdatedRecord_def Let_def map_has_snapshot map_get_snapshot)
qed

text \<open>
  The creation-only trigger in the same situation: the events are the records of \<open>C\<close>
  whose id is not an id of \<open>S\<close>, and the state is \<open>C\<close>.
\<close>

lemma onNewRecord_incremental:
  assumes "\<not> learningMode invoc"
    and "state_records invoc = Some S"
    and "getCreatedColumnName api (baseId (triggerData invoc)) (tableIdOrName (triggerData invoc))
           = Inr createdColumn"
    and "getLatestRecords api (baseId (triggerData invoc)) (tableIdOrName (triggerData invoc))
           createdColumn = Inr C"
  shows "onNewRecord api invoc =
           Inr \<lparr>events = map Some (filter (\<lambda>e. rid e \<notin> rid ` set S) C),
                next_state = Some \<lparr>records = Some C\<rparr>\<rparr>"
  using assms by (simp add: onNewRecord_def Let_def)

text \<open>
  Claim C2 (bootstrap invariant).  When learning mode is off and the invocation carries
  no snapshot (the state is null or absent), both polling triggers return no events and
  a state holding exactly the fetched list \<open>C\<close>, whatever \<open>C\<close> contains.
\<close>

theorem bootstrap_invariant:
  assumes "\<not> learningMode invoc" and "state_records invoc = None"
  shows "(getLatestRecords api (baseId (triggerData invoc)) (tableIdOrName (triggerData invoc))
            (Some (lastModifiedColumn (triggerData invoc))) = Inr C
          \<longrightarrow> onNewOrUpdatedRecord api invoc
                = Inr \<lparr>events = [], next_state = Some \<lparr>records = Some C\<rparr>\<rparr>)
       \<and> (getCreatedColumnName api (baseId (triggerData invoc)) (tableIdOrName (triggerData invoc))
              = Inr createdColumn
            \<and> getLatestRecords api (baseId (triggerData invoc)) (tableIdOrName (triggerData invoc))
                createdColumn = Inr C
          \<longrightarrow> onNewRecord api invoc
                = Inr \<lparr>events = [], next_state = Some \<lparr>records = Some C\<rparr>\<rparr>)"
  using assms by (simp add: onNewOrUpdatedRecord_def onNewRecord_def Let_def)

theorem bootstrap_invariant_witness:
  "\<not> learningMode \<lparr>triggerData = sample_data, state = None, learningMode = False\<rparr>
   \<and> state_records \<lparr>triggerData = sample_data, state = None, learningMode = False\<rparr> = None
   \<and> getLatestRecords (fixed_api [sample_record ''r1'' ''t1''] [sample_table])
         ''app1'' ''tbl1'' (Some ''modified'') = Inr [sample_record ''r1'' ''t1'']
   \<and> getCreatedColumnName (fixed_api [sample_record ''r1'' ''t1''] [sample_table]) ''app1'' ''tbl1''
       = Inr (Some ''Created'')
   \<and> getLatestRecords (fixed_api [sample_record ''r1'' ''t1''] [sample_table])
         ''app1'' ''tbl1'' (Some ''Created'') = Inr [sample_record ''r1'' ''t1'']
   \<and> onNewOrUpdatedRecord (fixed_api [sample_record ''r1'' ''t1''] [sample_table])
        \<lparr>triggerData = sample_data, state = None, learningMode = False\<rparr>
       = Inr \<lparr>events = [], next_state = Some \<lparr>records = Some [sample_record ''r1'' ''t1'']\<rparr>\<rparr>
   \<and> onNewRecord (fixed_api [sample_record ''r1'' ''t1''] [sample_table])
        \<lparr>triggerData = sample_data, state = None, learningMode = False\<rparr>
       = Inr \<lparr>events = [], next_state = Some \<lparr>records = Some [sample_record ''r1'' ''t1'']\<rparr>\<rparr>"
  using bootstrap_invariant
    [of "\<lparr>triggerData = sample_data, state = None, learningMode = False\<rparr>"
        "fixed_api [sample_record ''r1'' ''t1''] [sample_table]"
        "[sample_record ''r1'' ''t1'']" "Some ''Created''"]
  by (simp add: sample_data_def sample_table_def fixed_api_def getLatestRecords_def
        getCreatedColumnName_def state_records_def)

text \<open>
  Claim C3 as written says that learning mode returns the empty list of events when the
  fetch returns no records.  On the empty fetch the code returns the one-element list
  \<^verbatim>\<open>[undefined]\<close> instead.
\<close>

theorem learning_mode_empty_fetch_counterexample:
  "onNewOrUpdatedRecord (fixed_api [] [sample_table])
     \<lparr>triggerData = sample_data, state = None, learningMode = True\<rparr>
     = Inr \<lparr>events = [None], next_state = None\<rparr>
   \<and> onNewOrUpdatedRecord (fixed_api [] [sample_table])
     \<lparr>triggerData = sample_data, state = None, learningMode = True\<rparr>
     \<noteq> Inr \<lparr>events = [], next_state = None\<rparr>"
  by (simp add: onNewOrUpdatedRecord_def sample_data_def fixed_api_def getLatestRecords_def)

text \<open>
  Claim C3, amended (learning mode result shape).  In learning mode both polling triggers
  return a state of null and a list of events with exactly one element, \<^verbatim>\<open>records[0]\<close>:
  the first fetched record when the fetch is not empty, and \<^verbatim>\<open>undefined\<close> when it is.
\<close>

theorem learning_mode_result:
  assumes "learningMode invoc"
  shows "(getLatestRecords api (baseId (triggerData invoc)) (tableIdOrName (triggerData invoc))
            (Some (lastModifiedColumn (triggerData invoc))) = Inr C
          \<longrightarrow> onNewOrUpdatedRecord api invoc
                = Inr \<lparr>events = [case C of [] \<Rightarrow> None | r # _ \<Rightarrow> Some r], next_state = None\<rparr>)
       \<and> (getCreatedColumnName api (baseId (triggerData invoc)) (tableIdOrName (triggerData invoc))
              = Inr createdColumn
            \<and> getLatestRecords api (baseId (triggerData invoc)) (tableIdOrName (triggerData invoc))
                createdColumn = Inr C
          \<longrightarrow> onNewRecord api invoc
                = Inr \<lparr>events = [case C of [] \<Rightarrow> None | r # _ \<Rightarrow> Some r], next_state = None\<rparr>)"
  using assms by (cases C) (simp_all add: onNewOrUpdatedRecord_def onNewRecord_def Let_def)

theorem learning_mode_result_witness:
  "learningMode \<lparr>triggerData = sample_data, state = None, learningMode = True\<rparr>
   \<and> getLatestRecords (fixed_api [sample_record ''r1'' ''t1'', sample_record ''r2'' ''t2''] [sample_table])
         ''app1'' ''tbl1'' (Some ''modified'')
       = Inr [sample_record ''r1'' ''t1'', sample_record ''r2'' ''t2'']
   \<and> getCreatedColumnName
         (fixed_api [sample_record ''r1'' ''t1'', sample_record ''r2'' ''t2''] [sample_table])
         ''app1'' ''tbl1'' = Inr (Some ''Created'')
   \<and> getLatestRecords (fixed_api [sample_record ''r1'' ''t1'', sample_record ''r2'' ''t2''] [sample_table])
         ''app1'' ''tbl1'' (Some ''Created'')
       = Inr [sample_record ''r1'' ''t1'', sample_record ''r2'' ''t2'']
   \<and> onNewOrUpdatedRecord
         (fixed_api [sample_record ''r1'' ''t1'', sample_record ''r2'' ''t2''] [sample_table])
         \<lparr>triggerData = sample_data, state = None, learningMode = True\<rparr>
       = Inr \<lparr>events = [Some (sample_record ''r1'' ''t1'')], next_state = None\<rparr>
   \<and> onNewRecord
         (fixed_api [sample_record ''r1'' ''t1'', sample_record ''r2'' ''t2''] [sample_table])
         \<lparr>triggerData = sample_data, state = None, learningMode = True\<rparr>
       = Inr \<lparr>events = [Some (sample_record ''r1'' ''t1'')], next_state = None\<rparr>"
  using learning_mode_result
    [of "\<lparr>triggerData = sample_data, state = None, learningMode = True\<rparr>"
        "fixed_api [sample_record ''r1'' ''t1'', sample_record ''r2'' ''t2''] [sample_table]"
        "[sample_record ''r1'' ''t1'', sample_record ''r2'' ''t2'']" "Some ''Created''"]
  by (simp add: sample_data_def sample_table_def fixed_api_def getLatestRecords_def
        getCreatedColumnName_def)

text \<open>
  Claim C4 (learning mode purity).  Two invocations of \<^verbatim>\<open>onNewOrUpdatedRecord\<close> in
  learning mode that differ only in the snapshot they carry, against the same remote,
  return the same result (or fail with the same error), and a returned state is null.
\<close>

theorem learning_mode_purity:
  assumes "learningMode invoc"
  shows "onNewOrUpdatedRecord api (invoc\<lparr>state := s1\<rparr>)
           = onNewOrUpdatedRecord api (invoc\<lparr>state := s2\<rparr>)
       \<and> (\<forall>r. onNewOrUpdatedRecord api (invoc\<lparr>state := s1\<rparr>) = Inr r
              \<longrightarrow> next_state r = None)"
  using assms by (auto simp: onNewOrUpdatedRecord_def Let_def split: sum.splits)

theorem learning_mode_purity_witness:
  "learningMode \<lparr>triggerData = sample_data, state = None, learningMode = True\<rparr>
   \<and> onNewOrUpdatedRecord (fixed_api [sample_record ''r2'' ''t3''] [])
         \<lparr>triggerData = sample_data, state = None, learningMode = True\<rparr>
       = onNewOrUpdatedRecord (fixed_api [sample_record ''r2'' ''t3''] [])
         \<lparr>triggerData = sample_data,
          state = Some \<lparr>records = Some [sample_record ''r1'' ''t1'']\<rparr>, learningMode = True\<rparr>
   \<and> onNewOrUpdatedRecord (fixed_api [sample_record ''r2'' ''t3''] [])
         \<lparr>triggerData = sample_data, state = None, learningMode = True\<rparr>
       = Inr \<lparr>events = [Some (sample_record ''r2'' ''t3'')], next_state = None\<rparr>
   \<and> next_state \<lparr>events = [Some (sample_record ''r2'' ''t3'')], next_state = None\<rparr> = None"
  using learning_mode_purity
    [of "\<lparr>triggerData = sample_data, state = None, learningMode = True\<rparr>"
        "fixed_api [sample_record ''r2'' ''t3''] []"
        None "Some \<lparr>records = Some [sample_record ''r1'' ''t1'']\<rparr>"]
  by (simp add: onNewOrUpdatedRecord_def sample_data_def fixed_api_def getLatestRecords_def)

subsection \<open>The dictionaries\<close>

text \<open>\<^verbatim>\<open>includes\<close> is the substring test.\<close>

lemma starts_with_iff: "starts_with s t \<longleftrightarrow> (\<exists>q. s = t @ q)"
  by (induction s t rule: starts_with.induct) auto

lemma js_includes_iff: "js_includes s t \<longleftrightarrow> (\<exists>p q. s = p @ t @ q)"
proof (induction s)
  case Nil
  then show ?case by simp
next
  case (Cons c s)
  show ?case
  proof
    assume "js_includes (c # s) t"
    then consider "starts_with (c # s) t" | "js_includes s t" by auto
    then show "\<exists>p q. c # s = p @ t @ q"
    proof cases
      case 1
      then obtain q where "c # s = t @ q" by (auto simp: starts_with_iff)
      then have "c # s = [] @ t @ q" by simp
      then show ?thesis by blast
    next
      case 2
      with Cons.IH obtain p q where "s = p @ t @ q" by blast
      then have "c # s = (c # p) @ t @ q" by simp
      then show ?thesis by blast
    qed
  next
    assume "\<exists>p q. c # s = p @ t @ q"
    then obtain p q where pq: "c # s = p @ t @ q" by blast
    show "js_includes (c # s) t"
    proof (cases p)
      case Nil
      with pq have "starts_with (c # s) t" by (auto simp: starts_with_iff)
      then show ?thesis by simp
    next
      case (Cons a p')
      with pq have "s = p' @ t @ q" by simp
      with Cons.IH have "js_includes s t" by blast
      then show ?thesis by simp
    qed
  qed
qed

text \<open>The two branches of \<^verbatim>\<open>search ? searchFilter(..) : list\<close>.\<close>

lemma filter_page_search:
  "s \<noteq> [] \<Longrightarrow> filter_page pf prop (Some s) props xs
     = filter (\<lambda>item. list_ex (field_contains pf prop s item) props) xs"
  by (simp add: filter_page_def searchFilter_def)

lemma filter_page_no_search:
  "srch = None \<or> srch = Some [] \<Longrightarrow> filter_page pf prop srch props xs = xs"
  by (auto simp: filter_page_def)

text \<open>
  Lower-casing and trimming an ASCII search string a second time changes nothing.
\<close>

lemma lower_char_cases:
  "lower_char c = c \<or> lower_char c \<in> set ''abcdefghijklmnopqrstuvwxyz''"
proof (cases "map_of (zip ''ABCDEFGHIJKLMNOPQRSTUVWXYZ'' ''abcdefghijklmnopqrstuvwxyz'') c")
  case None
  then show ?thesis by (simp add: lower_char_def)
next
  case (Some l)
  then have "(c, l) \<in> set (zip ''ABCDEFGHIJKLMNOPQRSTUVWXYZ'' ''abcdefghijklmnopqrstuvwxyz'')"
    by (rule map_of_SomeD)
  then have "l \<in> set ''abcdefghijklmnopqrstuvwxyz''"
    by (rule set_zip_rightD)
  with Some show ?thesis by (simp only: lower_char_def option.case) simp
qed

lemma lower_letters:
  "\<forall>d \<in> set ''abcdefghijklmnopqrstuvwxyz''. lower_char d = d \<and> is_ascii d"
  by (simp add: lower_char_def is_ascii_def)

lemma lower_char_idem: "lower_char (lower_char c) = lower_char c"
  using lower_char_cases [of c] lower_letters by metis

lemma lower_char_ascii: "is_ascii c \<Longrightarrow> is_ascii (lower_char c)"
  using lower_char_cases [of c] lower_letters by metis

lemma trim_twice:
  "dropWhile P (rev (dropWhile P (rev (dropWhile P xs)))) = rev (dropWhile P (rev (dropWhile P xs)))"
proof -
  define ys where "ys = dropWhile P xs"
  define zs where "zs = rev (dropWhile P (rev ys))"
  have "zs @ rev (takeWhile P (rev ys)) = rev (takeWhile P (rev ys) @ dropWhile P (rev ys))"
    by (simp only: zs_def rev_append)
  also have "\<dots> = rev (rev ys)"
    by (simp only: takeWhile_dropWhile_id)
  finally have split: "zs @ rev (takeWhile P (rev ys)) = ys"
    by simp
  have "dropWhile P zs = zs"
  proof (cases zs)
    case Nil
    then show ?thesis by simp
  next
    case (Cons z zs')
    with split have ys: "ys = z # zs' @ rev (takeWhile P (rev ys))" by simp
    then have "ys \<noteq> []" by auto
    then have "\<not> P (hd ys)" unfolding ys_def by (rule hd_dropWhile)
    moreover from ys have "hd ys = z" by (metis list.sel(1))
    ultimately show ?thesis using Cons by simp
  qed
  then show ?thesis unfolding zs_def ys_def .
qed

lemma ascii_search_stable:
  assumes "list_all is_ascii s"
  shows "trim pf (toLowerCase pf (trim pf (toLowerCase pf s))) = trim pf (toLowerCase pf s)"
proof -
  let ?l = "map lower_char s"
  let ?t = "rev (dropWhile is_space (rev (dropWhile is_space ?l)))"
  from assms have l: "list_all is_ascii ?l"
    by (simp add: list_all_iff lower_char_ascii)
  have sub: "set ?t \<subseteq> set ?l"
    by (auto dest!: set_dropWhileD)
  with l have t: "list_all is_ascii ?t"
    by (auto simp: list_all_iff)
  from sub have "map lower_char ?t = ?t"
    by (intro map_idI) (auto simp: lower_char_idem)
  moreover have "rev (dropWhile is_space (rev (dropWhile is_space ?t))) = ?t"
    by (simp add: trim_twice)
  ultimately show ?thesis
    using assms l t by (simp add: toLowerCase_def trim_def)
qed

text \<open>
  The loop of the chats dictionary: with an empty search string it collects every chat
  once; with a search string that lower-casing and trimming leave as it is, and chats
  that have the field their test reads, it collects the chats that match, once each.
\<close>

lemma chat_matched_present:
  "has_tested_field chat \<Longrightarrow> chat_matched pf chat q = Inr (chat_matches pf q chat)"
  by (auto simp: has_tested_field_def chat_matched_def chat_matches_def searchInText_def
        split: if_splits option.splits bool.splits)

lemma collect_chats_blank:
  "collect_chats pf [] acc us
     = Inr (acc @ map (\<lambda>c. (chat_id c, chat_entry pf c)) (first_per_id (map fst acc) (page_chats us)))"
proof (induction us arbitrary: acc)
  case Nil
  then show ?case by simp
next
  case (Cons u us)
  show ?case
  proof (cases "message_chat u")
    case None
    then show ?thesis by (simp add: Cons.IH)
  next
    case (Some chat)
    then show ?thesis by (simp add: Cons.IH)
  qed
qed

lemma collect_chats_search:
  assumes "q \<noteq> []" and "trim pf (toLowerCase pf q) = q"
  shows "\<forall>c \<in> set (page_chats us). has_tested_field c \<Longrightarrow>
         collect_chats pf q acc us
           = Inr (acc @ map (\<lambda>c. (chat_id c, chat_entry pf c))
                          (first_per_id (map fst acc) (filter (chat_matches pf q) (page_chats us))))"
proof (induction us arbitrary: acc)
  case Nil
  then show ?case by simp
next
  case (Cons u us)
  show ?case
  proof (cases "message_chat u")
    case None
    with Cons show ?thesis by simp
  next
    case (Some chat)
    with Cons.prems have f: "has_tested_field chat"
      and rest: "\<forall>c \<in> set (page_chats us). has_tested_field c" by simp_all
    note ih = Cons.IH [OF rest]
    from f have m: "chat_matched pf chat q = Inr (chat_matches pf q chat)"
      by (rule chat_matched_present)
    show ?thesis
    proof (cases "chat_matches pf q chat")
      case True
      with Some assms m show ?thesis by (simp add: ih)
    next
      case False
      with Some assms m show ?thesis by (simp add: ih)
    qed
  qed
qed

text \<open>One dictionary at a time: what it returns for the page the remote answered with.\<close>

lemma bases_page_filtering:
  "(list_bases api c = Inr bpage \<longrightarrow>
        (s \<noteq> [] \<longrightarrow>
           getBasesDictionary pf api (Some s) c
             = Inr \<lparr>cursor = bases_offset bpage,
                    items = map (\<lambda>b. dictionary_entry (base_id b) (base_name b) (Some (base_id b)))
                      (filter (\<lambda>b. contains_search pf s (base_id b)
                                 \<or> (\<exists>n. base_name b = Some n \<and> contains_search pf s n))
                         (bases bpage))\<rparr>)
      \<and> (srch = None \<or> srch = Some [] \<longrightarrow>
           getBasesDictionary pf api srch c
             = Inr \<lparr>cursor = bases_offset bpage,
                    items = map (\<lambda>b. dictionary_entry (base_id b) (base_name b) (Some (base_id b)))
                              (bases bpage)\<rparr>))"
proof -
  have "list_ex (field_contains pf base_prop s b) [''id'', ''name'']
          \<longleftrightarrow> contains_search pf s (base_id b)
               \<or> (\<exists>n. base_name b = Some n \<and> contains_search pf s n)" for b
    by (auto simp: field_contains_def base_prop_def split: option.splits)
  then show ?thesis
    by (auto simp: getBasesDictionary_def filter_page_search filter_page_no_search
          simp del: list_ex_Cons_iff list_ex_Nil_iff)
qed

lemma tables_page_filtering:
  "(list_tables api bId = Inr tables \<longrightarrow>
        (s \<noteq> [] \<longrightarrow>
           getTablesDictionary pf api (Some s) bId
             = Inr \<lparr>cursor = None,
                    items = map (\<lambda>t. dictionary_entry (table_id t) (table_name t) (Some (table_id t)))
                      (filter (\<lambda>t. contains_search pf s (table_id t)
                                 \<or> (\<exists>n. table_name t = Some n \<and> contains_search pf s n))
                         tables)\<rparr>)
      \<and> (srch = None \<or> srch = Some [] \<longrightarrow>
           getTablesDictionary pf api srch bId
             = Inr \<lparr>cursor = None,
                    items = map (\<lambda>t. dictionary_entry (table_id t) (table_name t) (Some (table_id t)))
                              tables\<rparr>))"
proof -
  have "list_ex (field_contains pf table_prop s t) [''id'', ''name'']
          \<longleftrightarrow> contains_search pf s (table_id t)
               \<or> (\<exists>n. table_name t = Some n \<and> contains_search pf s n)" for t
    by (auto simp: field_contains_def table_prop_def split: option.splits)
  then show ?thesis
    by (auto simp: getTablesDictionary_def filter_page_search filter_page_no_search
          simp del: list_ex_Cons_iff list_ex_Nil_iff)
qed

lemma fields_page_filtering:
  "(list_tables api bId = Inr tables \<and> find (\<lambda>t. table_id t = tbl) tables = Some table \<longrightarrow>
        (s \<noteq> [] \<longrightarrow>
           getFieldsDictionary pf api (Some s) bId tbl
             = Inr \<lparr>cursor = None,
                    items = map (\<lambda>f. dictionary_entry (field_id f) (field_name f) (field_name f))
                      (filter (\<lambda>f. contains_search pf s (field_id f)
                                 \<or> (\<exists>n. field_name f = Some n \<and> contains_search pf s n))
                         (table_fields table))\<rparr>)
      \<and> (srch = None \<or> srch = Some [] \<longrightarrow>
           getFieldsDictionary pf api srch bId tbl
             = Inr \<lparr>cursor = None,
                    items = map (\<lambda>f. dictionary_entry (field_id f) (field_name f) (field_name f))
                              (table_fields table)\<rparr>))"
proof -
  have "list_ex (field_contains pf field_prop s f) [''id'', ''name'']
          \<longleftrightarrow> contains_search pf s (field_id f)
               \<or> (\<exists>n. field_name f = Some n \<and> contains_search pf s n)" for f
    by (auto simp: field_contains_def field_prop_def split: option.splits)
  then show ?thesis
    by (auto simp: getFieldsDictionary_def filter_page_search filter_page_no_search
          simp del: list_ex_Cons_iff list_ex_Nil_iff)
qed

lemma columns_page_filtering:
  "(list_tables api bId = Inr tables
        \<and> columns = filter (\<lambda>f. field_type f = ''lastModifiedTime'')
              (case find (\<lambda>t. table_id t = tbl \<or> table_name t = Some tbl) tables of
                 None \<Rightarrow> [] | Some t \<Rightarrow> table_fields t) \<longrightarrow>
        (s \<noteq> [] \<longrightarrow>
           getLastModifiedColumnsDictionary pf api (Some s) bId tbl
             = Inr \<lparr>cursor = None,
                    items = map (\<lambda>f. dictionary_entry (field_id f) (field_name f) (field_name f))
                      (filter (\<lambda>f. contains_search pf s (field_id f)
                                 \<or> (\<exists>n. field_name f = Some n \<and> contains_search pf s n))
                         columns)\<rparr>)
      \<and> (srch = None \<or> srch = Some [] \<longrightarrow>
           getLastModifiedColumnsDictionary pf api srch bId tbl
             = Inr \<lparr>cursor = None,
                    items = map (\<lambda>f. dictionary_entry (field_id f) (field_name f) (field_name f))
                              columns\<rparr>))"
proof -
  have "list_ex (field_contains pf field_prop s f) [''id'', ''name'']
          \<longleftrightarrow> contains_search pf s (field_id f)
               \<or> (\<exists>n. field_name f = Some n \<and> contains_search pf s n)" for f
    by (auto simp: field_contains_def field_prop_def split: option.splits)
  then show ?thesis
    by (auto simp: getLastModifiedColumnsDictionary_def getTableSchema_def Let_def
          filter_page_search filter_page_no_search
          simp del: list_ex_Cons_iff list_ex_Nil_iff)
qed

lemma records_page_filtering:
  "(list_all_records api bId tbl = Inr (Some \<lparr>resp_records = Some recs\<rparr>) \<longrightarrow>
        (s \<noteq> [] \<longrightarrow>
           getRecordsDictionary pf api (Some s) bId tbl
             = Inr \<lparr>cursor = None,
                    items = map (\<lambda>r. \<lparr>item_label = rid r, item_note = ''ID: '' @ rid r,
                                      item_value = Some (rid r)\<rparr>)
                      (filter (\<lambda>r. contains_search pf s (rid r)) recs)\<rparr>)
      \<and> (srch = None \<or> srch = Some [] \<longrightarrow>
           getRecordsDictionary pf api srch bId tbl
             = Inr \<lparr>cursor = None,
                    items = map (\<lambda>r. \<lparr>item_label = rid r, item_note = ''ID: '' @ rid r,
                                      item_value = Some (rid r)\<rparr>)
                              recs\<rparr>))"
proof -
  have "list_ex (field_contains pf record_prop s r) [''id''] \<longleftrightarrow> contains_search pf s (rid r)"
    for r
    by (simp add: field_contains_def record_prop_def)
  then show ?thesis
    by (auto simp: getRecordsDictionary_def filter_page_search filter_page_no_search
          simp del: list_ex_Cons_iff list_ex_Nil_iff)
qed

lemma comments_page_filtering:
  "(list_comments api bId tbl recordId DEFAULT_LIMIT c = Inr cpage \<longrightarrow>
        (s \<noteq> [] \<longrightarrow>
           getCommentsDictionary pf api (Some s) c bId tbl recordId
             = Inr \<lparr>cursor = comments_offset cpage,
                    items = map (\<lambda>x. dictionary_entry (comment_id x) (comment_text x) (Some (comment_id x)))
                      (filter (\<lambda>x. contains_search pf s (comment_id x)
                                 \<or> (\<exists>n. comment_text x = Some n \<and> contains_search pf s n))
                         (comments cpage))\<rparr>)
      \<and> (srch = None \<or> srch = Some [] \<longrightarrow>
           getCommentsDictionary pf api srch c bId tbl recordId
             = Inr \<lparr>cursor = comments_offset cpage,
                    items = map (\<lambda>x. dictionary_entry (comment_id x) (comment_text x) (Some (comment_id x)))
                              (comments cpage)\<rparr>))"
proof -
  have "list_ex (field_contains pf comment_prop s x) [''id'', ''text'']
          \<longleftrightarrow> contains_search pf s (comment_id x)
               \<or> (\<exists>n. comment_text x = Some n \<and> contains_search pf s n)" for x
    by (auto simp: field_contains_def comment_prop_def split: option.splits)
  then show ?thesis
    by (auto simp: getCommentsDictionary_def filter_page_search filter_page_no_search
          simp del: list_ex_Cons_iff list_ex_Nil_iff)
qed

lemma chats_page_filtering:
  "(getUpdates tg (cursor_or_zero tc) = Inr updates
        \<and> q = trim pf (toLowerCase pf (or_else raw [])) \<longrightarrow>
        (q = [] \<longrightarrow>
           getChatsDictionary pf tg (Some \<lparr>payload_search = raw, payload_cursor = tc\<rparr>)
             = Inr \<lparr>cursor = Some (cursor_plus_one (cursor_or_zero tc)),
                    items = map (chat_entry pf) (first_per_id [] (page_chats updates))\<rparr>)
      \<and> (q \<noteq> [] \<and> trim pf (toLowerCase pf q) = q
           \<and> (\<forall>chat \<in> set (page_chats updates). has_tested_field chat) \<longrightarrow>
           getChatsDictionary pf tg (Some \<lparr>payload_search = raw, payload_cursor = tc\<rparr>)
             = Inr \<lparr>cursor = Some (cursor_plus_one (cursor_or_zero tc)),
                    items = map (chat_entry pf)
                              (first_per_id [] (filter (chat_matches pf q) (page_chats updates)))\<rparr>))"
proof (intro impI conjI)
  assume a: "getUpdates tg (cursor_or_zero tc) = Inr updates
             \<and> q = trim pf (toLowerCase pf (or_else raw []))"
  {
    assume "q = []"
    with a show "getChatsDictionary pf tg (Some \<lparr>payload_search = raw, payload_cursor = tc\<rparr>)
           = Inr \<lparr>cursor = Some (cursor_plus_one (cursor_or_zero tc)),
                  items = map (chat_entry pf) (first_per_id [] (page_chats updates))\<rparr>"
      by (simp add: getChatsDictionary_def Let_def collect_chats_blank o_def)
  next
    assume b: "q \<noteq> [] \<and> trim pf (toLowerCase pf q) = q
               \<and> (\<forall>chat \<in> set (page_chats updates). has_tested_field chat)"
    then have b1: "q \<noteq> []" and b2: "trim pf (toLowerCase pf q) = q"
      and b3: "\<forall>c \<in> set (page_chats updates). has_tested_field c"
      by simp_all
    have "collect_chats pf q [] updates
                 = Inr (map (\<lambda>c. (chat_id c, chat_entry pf c))
                     (first_per_id [] (filter (chat_matches pf q) (page_chats updates))))"
      using collect_chats_search [OF b1 b2 b3, of "[]"] by simp
    with a show "getChatsDictionary pf tg (Some \<lparr>payload_search = raw, payload_cursor = tc\<rparr>)
           = Inr \<lparr>cursor = Some (cursor_plus_one (cursor_or_zero tc)),
                  items = map (chat_entry pf)
                            (first_per_id [] (filter (chat_matches pf q) (page_chats updates)))\<rparr>"
      by (simp add: getChatsDictionary_def Let_def o_def)
  }
qed

text \<open>
  Claim C9 as written says that a dictionary operation called with a non-empty search
  string returns exactly the items that contain it.  The chats dictionary trims the
  search string first: with the search string of one space it returns a group of which
  no field (its id \<open>42\<close>, its type, its title \<open>Team\<close>) contains a space.
\<close>

theorem chats_blank_search_counterexample:
  "getChatsDictionary sample_platform (fixed_bot [\<lparr>message_chat = Some team_chat\<rparr>])
       (Some \<lparr>payload_search = Some '' '', payload_cursor = None\<rparr>)
     = Inr \<lparr>cursor = Some (CNum 1), items = [\<lparr>item_label = ''Team (group)'', item_note = ''ID: 42'', item_value = Some ''42''\<rparr>]\<rparr>
   \<and> '' '' \<noteq> []
   \<and> \<not> contains_search sample_platform '' '' ''42''
   \<and> \<not> contains_search sample_platform '' '' ''group''
   \<and> \<not> contains_search sample_platform '' '' ''Team''"
  by (simp add: getChatsDictionary_def fixed_bot_def team_chat_def sample_platform_def
        toLowerCase_def trim_def is_ascii_def is_space_def lower_char_def chat_entry_def
        template_def show_int_def show_nat.simps contains_search_def round_binary64_safe Let_def)

text \<open>
  Claim C9, amended (local page filtering).  The six dictionaries of the Airtable
  service (bases, tables, fields of the table with the given id, last-modified columns
  of the table with the given id or name, records, comments), called with a non-empty
  search string, return in the page's order exactly the entries of those items of the
  single page fetched of which a named field (\<^verbatim>\<open>id\<close> or \<^verbatim>\<open>name\<close>; \<^verbatim>\<open>id\<close> for a record;
  \<^verbatim>\<open>id\<close> or \<^verbatim>\<open>text\<close> for a comment) contains the search string as a case-insensitive
  substring, and the entries of all items of the page when the search string is empty
  or absent.  The chats dictionary lower-cases and trims the search string and keeps
  one entry for each chat id, the first: when the trimmed string is empty it returns
  every chat of the updates fetched; when it is not (and lower-casing and trimming it
  once more leaves it as it is, which holds for every ASCII search string), and every
  chat of the page has the field its test reads, it returns the chats that match, a
  private chat by its user name or its first and last name, any other chat by its
  title.  Each result is a function of the one page the remote answered with.
\<close>

theorem local_page_filtering:
  "(list_bases api c = Inr bpage \<longrightarrow>
      (s \<noteq> [] \<longrightarrow>
         getBasesDictionary pf api (Some s) c
           = Inr \<lparr>cursor = bases_offset bpage,
                  items = map (\<lambda>b. dictionary_entry (base_id b) (base_name b) (Some (base_id b)))
                    (filter (\<lambda>b. contains_search pf s (base_id b)
                               \<or> (\<exists>n. base_name b = Some n \<and> contains_search pf s n))
                       (bases bpage))\<rparr>)
    \<and> (srch = None \<or> srch = Some [] \<longrightarrow>
         getBasesDictionary pf api srch c
           = Inr \<lparr>cursor = bases_offset bpage,
                  items = map (\<lambda>b. dictionary_entry (base_id b) (base_name b) (Some (base_id b)))
                            (bases bpage)\<rparr>))
 \<and> (list_tables api bId = Inr tables \<longrightarrow>
      (s \<noteq> [] \<longrightarrow>
         getTablesDictionary pf api (Some s) bId
           = Inr \<lparr>cursor = None,
                  items = map (\<lambda>t. dictionary_entry (table_id t) (table_name t) (Some (table_id t)))
                    (filter (\<lambda>t. contains_search pf s (table_id t)
                               \<or> (\<exists>n. table_name t = Some n \<and> contains_search pf s n))
                       tables)\<rparr>)
    \<and> (srch = None \<or> srch = Some [] \<longrightarrow>
         getTablesDictionary pf api srch bId
           = Inr \<lparr>cursor = None,
                  items = map (\<lambda>t. dictionary_entry (table_id t) (table_name t) (Some (table_id t)))
                            tables\<rparr>))
 \<and> (list_tables api bId = Inr tables \<and> find (\<lambda>t. table_id t = tbl) tables = Some table \<longrightarrow>
      (s \<noteq> [] \<longrightarrow>
         getFieldsDictionary pf api (Some s) bId tbl
           = Inr \<lparr>cursor = None,
                  items = map (\<lambda>f. dictionary_entry (field_id f) (field_name f) (field_name f))
                    (filter (\<lambda>f. contains_search pf s (field_id f)
                               \<or> (\<exists>n. field_name f = Some n \<and> contains_search pf s n))
                       (table_fields table))\<rparr>)
    \<and> (srch = None \<or> srch = Some [] \<longrightarrow>
         getFieldsDictionary pf api srch bId tbl
           = Inr \<lparr>cursor = None,
                  items = map (\<lambda>f. dictionary_entry (field_id f) (field_name f) (field_name f))
                            (table_fields table)\<rparr>))
 \<and> (list_tables api bId = Inr tables
      \<and> columns = filter (\<lambda>f. field_type f = ''lastModifiedTime'')
            (case find (\<lambda>t. table_id t = tbl \<or> table_name t = Some tbl) tables of
               None \<Rightarrow> [] | Some t \<Rightarrow> table_fields t) \<longrightarrow>
      (s \<noteq> [] \<longrightarrow>
         getLastModifiedColumnsDictionary pf api (Some s) bId tbl
           = Inr \<lparr>cursor = None,
                  items = map (\<lambda>f. dictionary_entry (field_id f) (field_name f) (field_name f))
                    (filter (\<lambda>f. contains_search pf s (field_id f)
                               \<or> (\<exists>n. field_name f = Some n \<and> contains_search pf s n))
                       columns)\<rparr>)
    \<and> (srch = None \<or> srch = Some [] \<longrightarrow>
         getLastModifiedColumnsDictionary pf api srch bId tbl
           = Inr \<lparr>cursor = None,
                  items = map (\<lambda>f. dictionary_entry (field_id f) (field_name f) (field_name f))
                            columns\<rparr>))
 \<and> (list_all_records api bId tbl = Inr (Some \<lparr>resp_records = Some recs\<rparr>) \<longrightarrow>
      (s \<noteq> [] \<longrightarrow>
         getRecordsDictionary pf api (Some s) bId tbl
           = Inr \<lparr>cursor = None,
                  items = map (\<lambda>r. \<lparr>item_label = rid r, item_note = ''ID: '' @ rid r,
                                    item_value = Some (rid r)\<rparr>)
                    (filter (\<lambda>r. contains_search pf s (rid r)) recs)\<rparr>)
    \<and> (srch = None \<or> srch = Some [] \<longrightarrow>
         getRecordsDictionary pf api srch bId tbl
           = Inr \<lparr>cursor = None,
                  items = map (\<lambda>r. \<lparr>item_label = rid r, item_note = ''ID: '' @ rid r,
                                    item_value = Some (rid r)\<rparr>)
                            recs\<rparr>))
 \<and> (list_comments api bId tbl recordId DEFAULT_LIMIT c = Inr cpage \<longrightarrow>
      (s \<noteq> [] \<longrightarrow>
         getCommentsDictionary pf api (Some s) c bId tbl recordId
           = Inr \<lparr>cursor = comments_offset cpage,
                  items = map (\<lambda>x. dictionary_entry (comment_id x) (comment_text x) (Some (comment_id x)))
                    (filter (\<lambda>x. contains_search pf s (comment_id x)
                               \<or> (\<exists>n. comment_text x = Some n \<and> contains_search pf s n))
                       (comments cpage))\<rparr>)
    \<and> (srch = None \<or> srch = Some [] \<longrightarrow>
         getCommentsDictionary pf api srch c bId tbl recordId
           = Inr \<lparr>cursor = comments_offset cpage,
                  items = map (\<lambda>x. dictionary_entry (comment_id x) (comment_text x) (Some (comment_id x)))
                            (comments cpage)\<rparr>))
 \<and> (getUpdates tg (cursor_or_zero tc) = Inr updates
      \<and> q = trim pf (toLowerCase pf (or_else raw [])) \<longrightarrow>
      (q = [] \<longrightarrow>
         getChatsDictionary pf tg (Some \<lparr>payload_search = raw, payload_cursor = tc\<rparr>)
           = Inr \<lparr>cursor = Some (cursor_plus_one (cursor_or_zero tc)),
                  items = map (chat_entry pf) (first_per_id [] (page_chats updates))\<rparr>)
    \<and> (q \<noteq> [] \<and> trim pf (toLowerCase pf q) = q
         \<and> (\<forall>chat \<in> set (page_chats updates). has_tested_field chat) \<longrightarrow>
         getChatsDictionary pf tg (Some \<lparr>payload_search = raw, payload_cursor = tc\<rparr>)
           = Inr \<lparr>cursor = Some (cursor_plus_one (cursor_or_zero tc)),
                  items = map (chat_entry pf)
                            (first_per_id [] (filter (chat_matches pf q) (page_chats updates)))\<rparr>))"
  by (intro conjI bases_page_filtering tables_page_filtering fields_page_filtering columns_page_filtering records_page_filtering comments_page_filtering chats_page_filtering)

theorem local_page_filtering_witness:
  "list_bases (full_api fruit_page fruit_tables fruit_records fruit_comments) None = Inr fruit_page
   \<and> list_tables (full_api fruit_page fruit_tables fruit_records fruit_comments) ''app1'' = Inr fruit_tables
   \<and> list_all_records (full_api fruit_page fruit_tables fruit_records fruit_comments) ''app1'' ''b'' = Inr (Some \<lparr>resp_records = Some fruit_records\<rparr>)
   \<and> list_comments (full_api fruit_page fruit_tables fruit_records fruit_comments) ''app1'' ''b'' ''recApple'' DEFAULT_LIMIT None = Inr fruit_comments
   \<and> list_tables (full_api fruit_page orchard_tables fruit_records fruit_comments) ''app1'' = Inr orchard_tables
   \<and> table_id (hd orchard_tables) = ''t1''
   \<and> getUpdates (fixed_bot sample_updates) (cursor_or_zero None) = Inr sample_updates
   \<and> ''an'' = trim sample_platform (toLowerCase sample_platform (or_else (Some '' AN '') []))
   \<and> trim sample_platform (toLowerCase sample_platform ''an'') = ''an''
   \<and> ''te'' = trim sample_platform (toLowerCase sample_platform (or_else (Some '' TE '') []))
   \<and> trim sample_platform (toLowerCase sample_platform ''te'') = ''te''
   \<and> ''ames'' = trim sample_platform (toLowerCase sample_platform (or_else (Some ''Ames'') []))
   \<and> trim sample_platform (toLowerCase sample_platform ''ames'') = ''ames''
   \<and> list_all has_tested_field (page_chats sample_updates)
   \<and> [] = trim sample_platform (toLowerCase sample_platform (or_else (Some ''  '') []))
   \<and> getBasesDictionary sample_platform (full_api fruit_page fruit_tables fruit_records fruit_comments) (Some ''AN'') None
       = Inr \<lparr>cursor = Some ''next'', items = [\<lparr>item_label = ''Bananas'', item_note = ''ID: b'', item_value = Some ''b''\<rparr>]\<rparr>
   \<and> getBasesDictionary sample_platform (full_api fruit_page fruit_tables fruit_records fruit_comments) (Some []) None
       = Inr \<lparr>cursor = Some ''next'', items = [\<lparr>item_label = ''Apples'', item_note = ''ID: a'', item_value = Some ''a''\<rparr>, \<lparr>item_label = ''Bananas'', item_note = ''ID: b'', item_value = Some ''b''\<rparr>]\<rparr>
   \<and> getTablesDictionary sample_platform (full_api fruit_page fruit_tables fruit_records fruit_comments) (Some ''AN'') ''app1''
       = Inr \<lparr>cursor = None, items = [\<lparr>item_label = ''Bananas'', item_note = ''ID: b'', item_value = Some ''b''\<rparr>]\<rparr>
   \<and> getTablesDictionary sample_platform (full_api fruit_page fruit_tables fruit_records fruit_comments) (Some []) ''app1''
       = Inr \<lparr>cursor = None, items = [\<lparr>item_label = ''Apples'', item_note = ''ID: a'', item_value = Some ''a''\<rparr>, \<lparr>item_label = ''Bananas'', item_note = ''ID: b'', item_value = Some ''b''\<rparr>]\<rparr>
   \<and> getFieldsDictionary sample_platform (full_api fruit_page orchard_tables fruit_records fruit_comments) (Some ''AN'') ''app1'' ''t1''
       = Inr \<lparr>cursor = None,
              items = [\<lparr>item_label = ''Planted'', item_note = ''ID: f1'', item_value = Some ''Planted''\<rparr>,
                       \<lparr>item_label = ''Changed'', item_note = ''ID: f2'', item_value = Some ''Changed''\<rparr>]\<rparr>
   \<and> getLastModifiedColumnsDictionary sample_platform (full_api fruit_page orchard_tables fruit_records fruit_comments) (Some ''AN'') ''app1'' ''t1''
       = Inr \<lparr>cursor = None,
              items = [\<lparr>item_label = ''Changed'', item_note = ''ID: f2'', item_value = Some ''Changed''\<rparr>]\<rparr>
   \<and> getLastModifiedColumnsDictionary sample_platform (full_api fruit_page orchard_tables fruit_records fruit_comments) (Some []) ''app1'' ''t1''
       = Inr \<lparr>cursor = None,
              items = [\<lparr>item_label = ''Changed'', item_note = ''ID: f2'', item_value = Some ''Changed''\<rparr>,
                       \<lparr>item_label = ''Edited'', item_note = ''ID: f3'', item_value = Some ''Edited''\<rparr>]\<rparr>
   \<and> getRecordsDictionary sample_platform (full_api fruit_page fruit_tables fruit_records fruit_comments) (Some ''AN'') ''app1'' ''b''
       = Inr \<lparr>cursor = None,
              items = [\<lparr>item_label = ''recBANANA'', item_note = ''ID: recBANANA'',
                        item_value = Some ''recBANANA''\<rparr>]\<rparr>
   \<and> getCommentsDictionary sample_platform (full_api fruit_page fruit_tables fruit_records fruit_comments) (Some ''AN'') None ''app1'' ''b'' ''recApple''
       = Inr \<lparr>cursor = None,
              items = [\<lparr>item_label = ''Tangy'', item_note = ''ID: c2'', item_value = Some ''c2''\<rparr>]\<rparr>
   \<and> getChatsDictionary sample_platform (fixed_bot sample_updates)
         (Some \<lparr>payload_search = Some '' AN '', payload_cursor = None\<rparr>)
       = Inr \<lparr>cursor = Some (CNum 1), items = [\<lparr>item_label = ''Ann Ames (private)'', item_note = ''ID: 7, @ann_a'', item_value = Some ''7''\<rparr>]\<rparr>
   \<and> getChatsDictionary sample_platform (fixed_bot sample_updates)
         (Some \<lparr>payload_search = Some '' TE '', payload_cursor = None\<rparr>)
       = Inr \<lparr>cursor = Some (CNum 1), items = [\<lparr>item_label = ''Team (group)'', item_note = ''ID: 42'', item_value = Some ''42''\<rparr>]\<rparr>
   \<and> getChatsDictionary sample_platform (fixed_bot sample_updates)
         (Some \<lparr>payload_search = Some ''Ames'', payload_cursor = None\<rparr>)
       = Inr \<lparr>cursor = Some (CNum 1), items = [\<lparr>item_label = ''Ann Ames (private)'', item_note = ''ID: 7, @ann_a'', item_value = Some ''7''\<rparr>]\<rparr>
   \<and> getChatsDictionary sample_platform (fixed_bot sample_updates)
         (Some \<lparr>payload_search = Some ''  '', payload_cursor = None\<rparr>)
       = Inr \<lparr>cursor = Some (CNum 1), items = [\<lparr>item_label = ''Team (group)'', item_note = ''ID: 42'', item_value = Some ''42''\<rparr>, \<lparr>item_label = ''Ann Ames (private)'', item_note = ''ID: 7, @ann_a'', item_value = Some ''7''\<rparr>]\<rparr>"
  using local_page_filtering
      [where pf = sample_platform and api = "full_api fruit_page fruit_tables fruit_records fruit_comments"
         and c = None and bpage = fruit_page and s = "''AN''" and srch = "Some []"
         and bId = "''app1''" and tables = fruit_tables and tbl = "''b''"
         and table = "hd (tl fruit_tables)"
         and columns = "table_fields (hd (tl fruit_tables))"
         and recs = fruit_records and recordId = "''recApple''" and cpage = fruit_comments
         and tg = "fixed_bot sample_updates" and tc = None and updates = sample_updates
         and q = "''an''" and raw = "Some '' AN ''"]
    local_page_filtering
      [where pf = sample_platform and api = "full_api fruit_page orchard_tables fruit_records fruit_comments"
         and c = None and bpage = fruit_page and s = "''AN''" and srch = "Some []"
         and bId = "''app1''" and tables = orchard_tables and tbl = "''t1''"
         and table = "hd orchard_tables"
         and columns = "tl (table_fields (hd orchard_tables))"
         and recs = fruit_records and recordId = "''recApple''" and cpage = fruit_comments
         and tg = "fixed_bot sample_updates" and tc = None and updates = sample_updates
         and q = "[]" and raw = "Some ''  ''"]
    local_page_filtering
      [where pf = sample_platform and api = "full_api fruit_page fruit_tables fruit_records fruit_comments"
         and c = None and bpage = fruit_page and s = "''AN''" and srch = "Some []"
         and bId = "''app1''" and tables = fruit_tables and tbl = "''b''"
         and table = "hd (tl fruit_tables)"
         and columns = "table_fields (hd (tl fruit_tables))"
         and recs = fruit_records and recordId = "''recApple''" and cpage = fruit_comments
         and tg = "fixed_bot sample_updates" and tc = None and updates = sample_updates
         and q = "''te''" and raw = "Some '' TE ''"]
    local_page_filtering
      [where pf = sample_platform and api = "full_api fruit_page fruit_tables fruit_records fruit_comments"
         and c = None and bpage = fruit_page and s = "''AN''" and srch = "Some []"
         and bId = "''app1''" and tables = fruit_tables and tbl = "''b''"
         and table = "hd (tl fruit_tables)"
         and columns = "table_fields (hd (tl fruit_tables))"
         and recs = fruit_records and recordId = "''recApple''" and cpage = fruit_comments
         and tg = "fixed_bot sample_updates" and tc = None and updates = sample_updates
         and q = "''ames''" and raw = "Some ''Ames''"]
  by (simp add: full_api_def fruit_page_def fruit_tables_def orchard_tables_def
        fruit_records_def fruit_comments_def fixed_bot_def sample_updates_def team_chat_def
        ann_chat_def sample_platform_def toLowerCase_def trim_def is_ascii_def is_space_def
        lower_char_def contains_search_def dictionary_entry_def chat_entry_def
        chat_matches_def has_tested_field_def template_def show_int_def show_nat.simps
        round_binary64_safe Let_def)

text \<open>
  Where a private chat has no user name, the test of the chats dictionary reads
  \<^verbatim>\<open>undefined.toLowerCase()\<close> and the operation throws.
\<close>

lemma chats_search_without_username:
  "getChatsDictionary sample_platform (fixed_bot [\<lparr>message_chat = Some bob_chat\<rparr>])
       (Some \<lparr>payload_search = Some ''bob'', payload_cursor = None\<rparr>)
     = Inl TypeError"
  by (simp add: getChatsDictionary_def fixed_bot_def bob_chat_def sample_platform_def
        toLowerCase_def trim_def is_ascii_def is_space_def lower_char_def chat_matched_def
        searchInText_def Let_def)

text \<open>
  Claim C10 (table lookup by id only).  When \<^verbatim>\<open>tableIdOrName\<close> is the name of a table of
  the base but the id of none, \<^verbatim>\<open>getFieldsDictionary\<close> and \<^verbatim>\<open>#getCreatedColumnName\<close> (and
  with it \<^verbatim>\<open>onNewRecord\<close>) find no table and fail with the \<^verbatim>\<open>TypeError\<close> of reading a
  property of \<^verbatim>\<open>undefined\<close>, whereas \<^verbatim>\<open>#getTableSchema\<close> finds a table of that name and
  \<^verbatim>\<open>getLastModifiedColumnsDictionary\<close>, which uses it, returns a result.
\<close>

theorem table_lookup_by_id_only:
  assumes "list_tables api bId = Inr tables"
    and "tbl \<notin> table_id ` set tables"
    and "\<exists>t \<in> set tables. table_name t = Some tbl"
  shows "getFieldsDictionary pf api search bId tbl = Inl TypeError
       \<and> getCreatedColumnName api bId tbl = Inl TypeError
       \<and> (baseId (triggerData invoc) = bId \<and> tableIdOrName (triggerData invoc) = tbl
            \<longrightarrow> onNewRecord api invoc = Inl TypeError)
       \<and> (\<exists>t. getTableSchema api bId tbl = Inr (Some t) \<and> table_name t = Some tbl)
       \<and> (\<exists>r. getLastModifiedColumnsDictionary pf api search bId tbl = Inr r)"
proof -
  from assms(2) have none: "find (\<lambda>t. table_id t = tbl) tables = None"
    by (auto simp: find_None_iff)
  from assms(3) obtain t where
    some: "find (\<lambda>t. table_id t = tbl \<or> table_name t = Some tbl) tables = Some t"
    by (cases "find (\<lambda>t. table_id t = tbl \<or> table_name t = Some tbl) tables")
       (auto simp: find_None_iff)
  then have "t \<in> set tables" and "table_id t = tbl \<or> table_name t = Some tbl"
    by (auto simp: find_Some_iff)
  with assms(2) have name: "table_name t = Some tbl" by auto
  have c: "getCreatedColumnName api bId tbl = Inl TypeError"
    using assms(1) none by (simp add: getCreatedColumnName_def)
  have f: "getFieldsDictionary pf api search bId tbl = Inl TypeError"
    using assms(1) none by (simp add: getFieldsDictionary_def)
  have n: "baseId (triggerData invoc) = bId \<and> tableIdOrName (triggerData invoc) = tbl
            \<longrightarrow> onNewRecord api invoc = Inl TypeError"
    using c by (auto simp: onNewRecord_def Let_def)
  have s: "getTableSchema api bId tbl = Inr (Some t)"
    using assms(1) some by (simp add: getTableSchema_def)
  then have l: "\<exists>r. getLastModifiedColumnsDictionary pf api search bId tbl = Inr r"
    by (simp add: getLastModifiedColumnsDictionary_def Let_def)
  from c f n s name l show ?thesis by blast
qed

theorem table_lookup_by_id_only_witness:
  "list_tables (catalog_api fruit_page fruit_tables) ''app1'' = Inr fruit_tables
   \<and> ''Bananas'' \<notin> table_id ` set fruit_tables
   \<and> (\<exists>t \<in> set fruit_tables. table_name t = Some ''Bananas'')
   \<and> getFieldsDictionary sample_platform (catalog_api fruit_page fruit_tables) None ''app1'' ''Bananas'' = Inl TypeError
   \<and> getCreatedColumnName (catalog_api fruit_page fruit_tables) ''app1'' ''Bananas'' = Inl TypeError
   \<and> onNewRecord (catalog_api fruit_page fruit_tables)
        \<lparr>triggerData = \<lparr>baseId = ''app1'', tableIdOrName = ''Bananas'', lastModifiedColumn = ''Changed''\<rparr>,
         state = None, learningMode = False\<rparr> = Inl TypeError
   \<and> getTableSchema (catalog_api fruit_page fruit_tables) ''app1'' ''Bananas''
       = Inr (Some \<lparr>table_id = ''b'', table_name = Some ''Bananas'',
            table_fields = [\<lparr>field_id = ''f2'', field_name = Some ''Changed'',
                             field_type = ''lastModifiedTime''\<rparr>]\<rparr>)
   \<and> getLastModifiedColumnsDictionary sample_platform (catalog_api fruit_page fruit_tables) None ''app1'' ''Bananas''
       = Inr \<lparr>cursor = None,
              items = [\<lparr>item_label = ''Changed'', item_note = ''ID: f2'', item_value = Some ''Changed''\<rparr>]\<rparr>"
  using table_lookup_by_id_only
    [of "catalog_api fruit_page fruit_tables" "''app1''" fruit_tables "''Bananas''"
        sample_platform None
        "\<lparr>triggerData = \<lparr>baseId = ''app1'', tableIdOrName = ''Bananas'', lastModifiedColumn = ''Changed''\<rparr>,
          state = None, learningMode = False\<rparr>"]
  by (simp add: catalog_api_def fruit_tables_def getTableSchema_def
        getLastModifiedColumnsDictionary_def filter_page_def dictionary_entry_def)

subsection \<open>The credential lifecycle\<close>

text \<open>
  Reading back what \<^verbatim>\<open>URLSearchParams.toString()\<close> wrote gives the pairs that were
  appended: the encoding of a byte is undone by the decoder, and no encoded name or value
  contains \<open>&\<close> or \<open>=\<close>.
\<close>

lemma of_char_lt: "(of_char c :: nat) < 256"
  by (metis of_char_of char_of_char mod_less_divisor zero_less_numeral)

lemma hex_value_digit: "d < 16 \<Longrightarrow> hex_value (hex_digits ! d) = d"
  by (auto simp: hex_value_def hex_digits_def less_Suc_eq numeral_eq_Suc)

lemma hex_digit_plain:
  "d < 16 \<Longrightarrow> hex_digits ! d \<notin> {CHR ''&'', CHR ''='', CHR ''+'', CHR ''%''}"
  by (auto simp: hex_digits_def less_Suc_eq numeral_eq_Suc)

lemma unreserved_plain:
  "c \<in> set unreserved_chars \<Longrightarrow> c \<notin> {CHR ''&'', CHR ''='', CHR ''+'', CHR ''%''}"
  by (auto simp: unreserved_chars_def)

lemma hex_pair: "char_of (hex_value (hex_digits ! (of_char c div 16)) * 16
                   + hex_value (hex_digits ! (of_char c mod 16))) = c"
proof -
  have "(of_char c :: nat) < 16 * 16"
    using of_char_lt [of c] by simp
  then have "(of_char c :: nat) div 16 < 16"
    by (rule less_mult_imp_div_less)
  then have "hex_value (hex_digits ! (of_char c div 16)) * 16
               + hex_value (hex_digits ! (of_char c mod 16)) = (of_char c :: nat)"
    by (simp add: hex_value_digit)
  then show ?thesis by simp
qed

lemma form_decode_char: "form_decode (percent_encode_char c @ r) = c # form_decode r"
proof (cases "c = CHR '' ''")
  case True
  then show ?thesis by (cases r rule: form_decode.cases) (simp_all add: percent_encode_char_def)
next
  case False
  show ?thesis
  proof (cases "c \<in> set unreserved_chars")
    case True
    then have "c \<noteq> CHR ''+''" "c \<noteq> CHR ''%''"
      using unreserved_plain [of c] by auto
    with True False show ?thesis
      by (cases r rule: form_decode.cases) (simp_all add: percent_encode_char_def)
  next
    case False
    with \<open>c \<noteq> CHR '' ''\<close> show ?thesis
      by (simp add: percent_encode_char_def hex_pair)
  qed
qed

lemma form_decode_encode: "form_decode (form_encode s) = s"
  by (induction s) (simp_all add: form_encode_def form_decode_char)

lemma percent_encode_char_plain:
  "set (percent_encode_char c) \<inter> {CHR ''&'', CHR ''=''} = {}"
proof -
  have "(of_char c :: nat) < 16 * 16"
    using of_char_lt [of c] by simp
  then have "(of_char c :: nat) div 16 < 16"
    by (rule less_mult_imp_div_less)
  then show ?thesis
    using hex_digit_plain [of "of_char c div 16"] hex_digit_plain [of "of_char c mod 16"]
      unreserved_plain [of c]
    by (auto simp: percent_encode_char_def)
qed

lemma form_encode_plain: "set (form_encode s) \<inter> {CHR ''&'', CHR ''=''} = {}"
  using percent_encode_char_plain by (induction s) (auto simp: form_encode_def)

lemma encode_pair_no_amp: "CHR ''&'' \<notin> set (encode_pair p)"
  using form_encode_plain [of "fst p"] form_encode_plain [of "snd p"]
  by (auto simp: encode_pair_def)

lemma encode_pair_not_empty: "encode_pair p \<noteq> []"
  by (simp add: encode_pair_def)

lemma parse_pair_encode: "parse_pair (encode_pair p) = p"
proof -
  have "\<And>x. x \<in> set (form_encode (fst p)) \<Longrightarrow> x \<noteq> CHR ''=''"
    using form_encode_plain [of "fst p"] by auto
  then have "takeWhile (\<lambda>c. c \<noteq> CHR ''='') (encode_pair p) = form_encode (fst p)"
    and "dropWhile (\<lambda>c. c \<noteq> CHR ''='') (encode_pair p) = CHR ''='' # form_encode (snd p)"
    by (simp_all add: encode_pair_def takeWhile_append2 dropWhile_append2)
  then show ?thesis by (simp add: parse_pair_def form_decode_encode)
qed

lemma split_on_plain: "d \<notin> set a \<Longrightarrow> split_on d a = [a]"
  by (induction a) auto

lemma split_on_append: "d \<notin> set a \<Longrightarrow> split_on d (a @ d # r) = a # split_on d r"
  by (induction a) auto

lemma split_on_join:
  "ps \<noteq> [] \<Longrightarrow> \<forall>p \<in> set ps. d \<notin> set p \<Longrightarrow> split_on d (join [d] ps) = ps"
proof (induction "[d]" ps rule: join.induct)
  case 1
  then show ?case by simp
next
  case (2 x)
  then show ?case by (simp add: split_on_plain)
next
  case (3 x y ys)
  then show ?case by (simp add: split_on_append)
qed

lemma parse_query_toString: "parse_query (URLSearchParams_toString params) = params"
proof (cases params)
  case Nil
  then show ?thesis by (simp add: parse_query_def URLSearchParams_toString_def)
next
  case (Cons p ps)
  then have "split_on CHR ''&'' (join ''&'' (map encode_pair params)) = map encode_pair params"
    by (intro split_on_join) (auto simp: encode_pair_no_amp)
  moreover have "filter (\<lambda>p. p \<noteq> []) (map encode_pair params) = map encode_pair params"
    by (simp add: filter_map o_def encode_pair_not_empty)
  ultimately show ?thesis
    by (simp add: parse_query_def URLSearchParams_toString_def parse_pair_encode o_def)
qed

text \<open>
  Claim C5 (code-exchange error swallowing).  When the POST to the token endpoint fails,
  or when it succeeds and the identity lookup that follows fails, \<^verbatim>\<open>executeCallback\<close>
  throws nothing and returns the empty object; when both calls succeed it returns the
  credential result: the access token, the expiry and the refresh token of the token
  body, and as account label the e-mail of the identity or, without one,
  \<^verbatim>\<open>Unknown Airtable Account\<close>.
\<close>

theorem code_exchange_error_swallowing:
  "(post_token api (getSecretTokenHeader svc)
       (URLSearchParams_toString
          [(''grant_type'', ''authorization_code''), (''client_secret'', clientSecret svc),
           (''code'', code cb), (''redirect_uri'', redirectURI cb),
           (''code_verifier'', callback_state cb)]) = Inl e
      \<longrightarrow> executeCallback svc api cb = Inr EmptyObject)
   \<and> (post_token api (getSecretTokenHeader svc)
       (URLSearchParams_toString
          [(''grant_type'', ''authorization_code''), (''client_secret'', clientSecret svc),
           (''code'', code cb), (''redirect_uri'', redirectURI cb),
           (''code_verifier'', callback_state cb)]) = Inr t
      \<longrightarrow> (whoami api (getAccessTokenHeader svc (access_token t)) = Inl e'
             \<longrightarrow> executeCallback svc api cb = Inr EmptyObject)
        \<and> (whoami api (getAccessTokenHeader svc (access_token t)) = Inr u
             \<longrightarrow> executeCallback svc api cb =
                   Inr (Connection
                     \<lparr>conn_token = access_token t,
                      conn_expirationInSeconds = expires_in t,
                      conn_refreshToken = refresh_token t,
                      connectionIdentityName =
                        (case email u of None \<Rightarrow> ''Unknown Airtable Account''
                         | Some a \<Rightarrow> if a = [] then ''Unknown Airtable Account'' else a),
                      connectionIdentityImageURL = None,
                      overwrite = True,
                      userData = u\<rparr>)))"
  by (cases "email u") (simp_all add: executeCallback_def identity_lookup_def)

theorem code_exchange_error_swallowing_witness:
  "executeCallback (new_service ''cid'' ''secret'' None)
       (fixed_oauth (Inl (RemoteError ''invalid_grant'')) (Inr sample_user)) sample_callback
     = Inr EmptyObject
   \<and> executeCallback (new_service ''cid'' ''secret'' None)
       (fixed_oauth (Inr (sample_token (Some ''rt1''))) (Inl (RemoteError ''UNAUTHORIZED'')))
       sample_callback
     = Inr EmptyObject
   \<and> executeCallback (new_service ''cid'' ''secret'' None)
       (fixed_oauth (Inr (sample_token (Some ''rt1''))) (Inr sample_user)) sample_callback
     = Inr (Connection
         \<lparr>conn_token = Some ''at1'', conn_expirationInSeconds = Some 3600,
          conn_refreshToken = Some ''rt1'', connectionIdentityName = ''ann@example.com'',
          connectionIdentityImageURL = None, overwrite = True, userData = sample_user\<rparr>)"
  using code_exchange_error_swallowing
      [of "fixed_oauth (Inl (RemoteError ''invalid_grant'')) (Inr sample_user)"
          "new_service ''cid'' ''secret'' None" sample_callback "RemoteError ''invalid_grant''"]
    code_exchange_error_swallowing
      [of "fixed_oauth (Inr (sample_token (Some ''rt1''))) (Inl (RemoteError ''UNAUTHORIZED''))"
          "new_service ''cid'' ''secret'' None" sample_callback _ "sample_token (Some ''rt1'')"
          "RemoteError ''UNAUTHORIZED''"]
    code_exchange_error_swallowing
      [of "fixed_oauth (Inr (sample_token (Some ''rt1''))) (Inr sample_user)"
          "new_service ''cid'' ''secret'' None" sample_callback _ "sample_token (Some ''rt1'')"
          _ sample_user]
  by (simp add: fixed_oauth_def sample_token_def sample_user_def)

text \<open>
  Claim C6 (refresh semantics).  When the call to the token endpoint succeeds,
  \<^verbatim>\<open>refreshToken\<close> returns a result whose refresh token is the one of the response when the
  response carries one (a non-empty string), and the refresh token passed in otherwise;
  when the call fails, \<^verbatim>\<open>refreshToken\<close> throws that same error.
\<close>

theorem refresh_semantics:
  "(post_token api (getSecretTokenHeader svc)
       (URLSearchParams_toString [(''grant_type'', ''refresh_token''), (''refresh_token'', rt)])
       = Inr response
      \<longrightarrow> (\<exists>r. refreshToken svc api rt = Inr r
              \<and> token r = access_token response
              \<and> expirationInSeconds r = expires_in response
              \<and> (\<forall>new. refresh_token response = Some new \<and> new \<noteq> [] \<longrightarrow> refreshed_token r = new)
              \<and> (refresh_token response = None \<or> refresh_token response = Some []
                    \<longrightarrow> refreshed_token r = rt)))
   \<and> (post_token api (getSecretTokenHeader svc)
       (URLSearchParams_toString [(''grant_type'', ''refresh_token''), (''refresh_token'', rt)])
       = Inl e
      \<longrightarrow> refreshToken svc api rt = Inl e)"
  by (auto simp: refreshToken_def)

theorem refresh_semantics_witness:
  "refreshToken (new_service ''cid'' ''secret'' None)
       (fixed_oauth (Inr (sample_token (Some ''rt2''))) (Inr sample_user)) ''rt1''
     = Inr \<lparr>token = Some ''at1'', expirationInSeconds = Some 3600, refreshed_token = ''rt2''\<rparr>
   \<and> refreshToken (new_service ''cid'' ''secret'' None)
       (fixed_oauth (Inr (sample_token None)) (Inr sample_user)) ''rt1''
     = Inr \<lparr>token = Some ''at1'', expirationInSeconds = Some 3600, refreshed_token = ''rt1''\<rparr>
   \<and> refreshToken (new_service ''cid'' ''secret'' None)
       (fixed_oauth (Inl (RemoteError ''invalid_grant'')) (Inr sample_user)) ''rt1''
     = Inl (RemoteError ''invalid_grant'')"
  using refresh_semantics
      [of "fixed_oauth (Inr (sample_token (Some ''rt2''))) (Inr sample_user)"
          "new_service ''cid'' ''secret'' None" "''rt1''" "sample_token (Some ''rt2'')"]
    refresh_semantics
      [of "fixed_oauth (Inr (sample_token None)) (Inr sample_user)"
          "new_service ''cid'' ''secret'' None" "''rt1''" "sample_token None"]
    refresh_semantics
      [of "fixed_oauth (Inl (RemoteError ''invalid_grant'')) (Inr sample_user)"
          "new_service ''cid'' ''secret'' None" "''rt1''" _ "RemoteError ''invalid_grant''"]
  by (auto simp: fixed_oauth_def sample_token_def)

text \<open>
  Claim C7 (authorization URL and verifier round trip).  The URL \<^verbatim>\<open>getOAuth2ConnectionURL\<close>
  returns is the authorize endpoint followed by a query string that contains, in this
  order, \<^verbatim>\<open>client_id\<close>, \<^verbatim>\<open>response_type=code\<close>, \<^verbatim>\<open>scope\<close> (the scope list joined by spaces),
  \<^verbatim>\<open>code_challenge\<close> (the challenge of the generated verifier), \<^verbatim>\<open>code_challenge_method=S256\<close>
  and \<^verbatim>\<open>state\<close>, the generated verifier itself; and the form body \<^verbatim>\<open>executeCallback\<close> posts
  to the token endpoint carries the \<^verbatim>\<open>state\<close> of the callback as \<^verbatim>\<open>code_verifier\<close>.  Nothing but
  the URL and the callback carries the verifier from one call to the other.
\<close>

theorem authorization_url_and_verifier:
  "\<exists>q B. getOAuth2ConnectionURL (new_service cid secret tok) generateCodeChallenge codeVerifier
            = ''https://airtable.com/oauth2/v1/authorize?'' @ q
         \<and> parse_query q =
              [(''client_id'', cid),
               (''response_type'', ''code''),
               (''scope'', join '' '' DEFAULT_SCOPE_LIST),
               (''code_challenge'', generateCodeChallenge codeVerifier),
               (''code_challenge_method'', ''S256''),
               (''state'', codeVerifier)]
         \<and> parse_query B =
              [(''grant_type'', ''authorization_code''),
               (''client_secret'', secret),
               (''code'', code cb),
               (''redirect_uri'', redirectURI cb),
               (''code_verifier'', callback_state cb)]
         \<and> executeCallback (new_service cid secret tok) api cb =
              (case post_token api (Basic (cid @ '':'' @ secret)) B of
                 Inl e \<Rightarrow> Inr EmptyObject
               | Inr t \<Rightarrow> identity_lookup (new_service cid secret tok) api t)"
proof -
  let ?q = "URLSearchParams_toString
              [(''client_id'', cid),
               (''response_type'', ''code''),
               (''scope'', join '' '' DEFAULT_SCOPE_LIST),
               (''code_challenge'', generateCodeChallenge codeVerifier),
               (''code_challenge_method'', ''S256''),
               (''state'', codeVerifier)]"
  let ?B = "URLSearchParams_toString
              [(''grant_type'', ''authorization_code''),
               (''client_secret'', secret),
               (''code'', code cb),
               (''redirect_uri'', redirectURI cb),
               (''code_verifier'', callback_state cb)]"
  have url: "getOAuth2ConnectionURL (new_service cid secret tok) generateCodeChallenge codeVerifier
               = ''https://airtable.com/oauth2/v1/authorize?'' @ ?q"
    by (simp add: getOAuth2ConnectionURL_def new_service_def DEFAULT_SCOPE_STRING_def
          OAUTH_BASE_URL_def)
  have call: "executeCallback (new_service cid secret tok) api cb =
                (case post_token api (Basic (cid @ '':'' @ secret)) ?B of
                   Inl e \<Rightarrow> Inr EmptyObject
                 | Inr t \<Rightarrow> identity_lookup (new_service cid secret tok) api t)"
  proof -
    have "clientId (new_service cid secret tok) = cid"
      and "clientSecret (new_service cid secret tok) = secret"
      by (simp_all add: new_service_def)
    then show ?thesis
      by (simp add: executeCallback_def getSecretTokenHeader_def)
  qed
  from url call show ?thesis
    by (intro exI [of _ ?q] exI [of _ ?B] conjI) (simp_all only: parse_query_toString)
qed

text \<open>The URL for a sample configuration, written out.\<close>

lemma authorization_url_example:
  "getOAuth2ConnectionURL (new_service ''app id'' ''s3cret'' None) sample_challenge ''v3rifier''
     = ''https://airtable.com/oauth2/v1/authorize?client_id=app+id&response_type=code&scope=schema.bases%3Aread+user.email%3Aread+webhook%3Amanage+schema.bases%3Awrite+data.records%3Aread+data.records%3Awrite+data.recordComments%3Aread+data.recordComments%3Awrite&code_challenge=challenge-of-v3rifier&code_challenge_method=S256&state=v3rifier''"
  by (simp add: getOAuth2ConnectionURL_def new_service_def sample_challenge_def
        DEFAULT_SCOPE_STRING_def DEFAULT_SCOPE_LIST_def OAUTH_BASE_URL_def
        URLSearchParams_toString_def encode_pair_def form_encode_def percent_encode_char_def
        unreserved_chars_def hex_digits_def)

subsection \<open>Following the cursors\<close>

text \<open>
  A listing that answers every call with a cursor is never followed to an end, and one
  whose cursors move through a finite collection (a measure of what remains decreases
  with every cursor returned) is followed to the end.
\<close>

lemma paginate_runs_out:
  assumes "\<And>c. \<exists>page c'. list c = Inr page \<and> cursor page = Some c'"
  shows "paginate n list c = None"
proof (induction n arbitrary: c)
  case 0
  then show ?case by simp
next
  case (Suc n)
  from assms obtain page c' where "list c = Inr page" and "cursor page = Some c'" by blast
  with Suc.IH [of "Some c'"] show ?case by simp
qed

lemma paginate_never_ends:
  assumes "\<And>c page. list c = Inr page \<Longrightarrow> cursor page \<noteq> None"
  shows "paginate n list c \<noteq> Some (Inr xs)"
proof (induction n arbitrary: c xs)
  case 0
  then show ?case by simp
next
  case (Suc n)
  show ?case
  proof (cases "list c")
    case (Inl e)
    then show ?thesis by simp
  next
    case (Inr page)
    with assms have "cursor page \<noteq> None" by blast
    then obtain c' where c': "cursor page = Some c'" by blast
    have "paginate n list (Some c') \<noteq> Some (Inr ys)" for ys
      by (rule Suc.IH)
    with Inr c' show ?thesis
      by (cases "paginate n list (Some c')") (auto split: sum.splits)
  qed
qed

lemma paginate_terminates:
  assumes answers: "\<And>c. \<exists>page. list c = Inr page"
    and progress: "\<And>c page c'. list c = Inr page \<Longrightarrow> cursor page = Some c'
                     \<Longrightarrow> remaining (Some c') < (remaining c :: nat)"
  shows "remaining c \<le> k \<Longrightarrow> \<exists>xs. paginate (Suc k) list c = Some (Inr xs)"
proof (induction k arbitrary: c)
  case 0
  from answers obtain page where page: "list c = Inr page" by blast
  have "cursor page = None"
  proof (cases "cursor page")
    case None
    then show ?thesis .
  next
    case (Some c')
    with page progress have "remaining (Some c') < remaining c" by blast
    with 0 show ?thesis by simp
  qed
  with page show ?case by simp
next
  case (Suc k)
  from answers obtain page where page: "list c = Inr page" by blast
  show ?case
  proof (cases "cursor page")
    case None
    with page show ?thesis by simp
  next
    case (Some c')
    with page progress have "remaining (Some c') < remaining c" by blast
    with Suc.prems have "remaining (Some c') \<le> k" by simp
    then obtain xs where "paginate (Suc k) list (Some c') = Some (Inr xs)"
      using Suc.IH by blast
    with page Some show ?thesis by simp
  qed
qed

text \<open>
  The two paginated dictionaries of the Airtable service hand the remote's offset on as
  their cursor, so they are followed to the end whenever the remote's offsets move
  through the collection.
\<close>

lemma getBasesDictionary_cursor:
  "list_bases api c = Inr page
     \<Longrightarrow> \<exists>r. getBasesDictionary pf api srch c = Inr r \<and> cursor r = bases_offset page"
  by (simp add: getBasesDictionary_def Let_def)

lemma getCommentsDictionary_cursor:
  "list_comments api bId tbl recordId DEFAULT_LIMIT c = Inr page
     \<Longrightarrow> \<exists>r. getCommentsDictionary pf api srch c bId tbl recordId = Inr r
            \<and> cursor r = comments_offset page"
  by (simp add: getCommentsDictionary_def Let_def)

lemma bases_pagination_terminates:
  assumes answers: "\<And>c. \<exists>page. list_bases api c = Inr page"
    and progress: "\<And>c page c'. list_bases api c = Inr page \<Longrightarrow> bases_offset page = Some c'
                     \<Longrightarrow> remaining (Some c') < (remaining c :: nat)"
  shows "\<exists>xs. paginate (Suc (remaining c0)) (getBasesDictionary pf api srch) c0 = Some (Inr xs)"
proof (rule paginate_terminates [where remaining = remaining])
  fix c
  from answers obtain page where "list_bases api c = Inr page" by blast
  then show "\<exists>r. getBasesDictionary pf api srch c = Inr r"
    using getBasesDictionary_cursor by blast
next
  fix c r c'
  assume r: "getBasesDictionary pf api srch c = Inr r" and c': "cursor r = Some c'"
  from answers obtain page where page: "list_bases api c = Inr page" by blast
  with r c' have "bases_offset page = Some c'"
    using getBasesDictionary_cursor [OF page, of pf srch] by auto
  with page show "remaining (Some c') < remaining c" by (rule progress)
next
  show "remaining c0 \<le> remaining c0" by simp
qed

lemma comments_pagination_terminates:
  assumes answers: "\<And>c. \<exists>page. list_comments api bId tbl recordId DEFAULT_LIMIT c = Inr page"
    and progress: "\<And>c page c'. list_comments api bId tbl recordId DEFAULT_LIMIT c = Inr page
                     \<Longrightarrow> comments_offset page = Some c'
                     \<Longrightarrow> remaining (Some c') < (remaining c :: nat)"
  shows "\<exists>xs. paginate (Suc (remaining c0))
                (\<lambda>c. getCommentsDictionary pf api srch c bId tbl recordId) c0 = Some (Inr xs)"
proof (rule paginate_terminates [where remaining = remaining])
  fix c
  from answers obtain page where "list_comments api bId tbl recordId DEFAULT_LIMIT c = Inr page"
    by blast
  then show "\<exists>r. getCommentsDictionary pf api srch c bId tbl recordId = Inr r"
    using getCommentsDictionary_cursor by blast
next
  fix c r c'
  assume r: "getCommentsDictionary pf api srch c bId tbl recordId = Inr r" and c': "cursor r = Some c'"
  from answers obtain page where page: "list_comments api bId tbl recordId DEFAULT_LIMIT c = Inr page"
    by blast
  with r c' have "comments_offset page = Some c'"
    using getCommentsDictionary_cursor [OF page, of pf srch] by auto
  with page show "remaining (Some c') < remaining c" by (rule progress)
next
  show "remaining c0 \<le> remaining c0" by simp
qed

text \<open>
  \<^verbatim>\<open>getChatsDictionary\<close> returns \<^verbatim>\<open>cursor + 1\<close> whatever the remote answered, so no
  result of it has a null cursor and following its cursors never ends with a result.
\<close>

lemma getChatsDictionary_cursor:
  "getChatsDictionary pf api payload = Inr page \<Longrightarrow> cursor page \<noteq> None"
  by (auto simp: getChatsDictionary_def Let_def split: sum.splits)

lemma chats_pagination_never_ends:
  "paginate n (\<lambda>c. getChatsDictionary pf api (Some \<lparr>payload_search = srch, payload_cursor = c\<rparr>)) c0
     \<noteq> Some (Inr xs)"
proof (rule paginate_never_ends)
  fix c page
  assume "getChatsDictionary pf api (Some \<lparr>payload_search = srch, payload_cursor = c\<rparr>) = Inr page"
  then show "cursor page \<noteq> None" by (rule getChatsDictionary_cursor)
qed

lemma getChatsDictionary_quiet:
  "getChatsDictionary pf quiet_bot (Some \<lparr>payload_search = srch, payload_cursor = c\<rparr>)
     = Inr \<lparr>cursor = Some (cursor_plus_one (cursor_or_zero c)), items = []\<rparr>"
  by (simp add: getChatsDictionary_def quiet_bot_def Let_def)

lemma getChatsDictionary_quiet_first_calls:
  "getChatsDictionary pf quiet_bot (Some \<lparr>payload_search = None, payload_cursor = None\<rparr>)
     = Inr \<lparr>cursor = Some (CNum 1), items = []\<rparr>
   \<and> getChatsDictionary pf quiet_bot (Some \<lparr>payload_search = None, payload_cursor = Some (CNum 1)\<rparr>)
     = Inr \<lparr>cursor = Some (CNum 2), items = []\<rparr>"
  by (simp add: getChatsDictionary_quiet round_binary64_safe)

text \<open>
  Claim C8 (pagination termination) on \<^verbatim>\<open>getChatsDictionary\<close>, for the smallest finite
  collection there is: a bot that has received no update.  Every call returns an empty
  page and a cursor, so however many calls are made, following the cursors has not
  reached a page without a cursor.
\<close>

theorem chats_pagination_does_not_terminate:
  "paginate n (\<lambda>c. getChatsDictionary pf quiet_bot (Some \<lparr>payload_search = srch, payload_cursor = c\<rparr>)) c0
     = None"
  by (rule paginate_runs_out) (simp add: getChatsDictionary_quiet)

end
